theory Spec2Isabelle
  imports Complex_Main
begin

section \<open>Brick structures: the catalog and the placement traversal of script.js\<close>

text \<open>
  The development follows \<^verbatim>\<open>src/script.js\<close>: the constants, the brick catalog
  \<^verbatim>\<open>BRICK_DEFINITIONS\<close>, the colour table, \<^verbatim>\<open>isTopHole\<close> and the
  breadth-first placement of \<^verbatim>\<open>buildStructure\<close>.

  Conventions of the embedding.
  \<^item> JavaScript numbers that carry lengths and angles are real numbers; socket ids and
    brick ids are the integers of the data format (\<^verbatim>\<open>1\<close>, \<^verbatim>\<open>56\<close>, \<^verbatim>\<open>-1\<close>).
  \<^item> A field that may be absent (\<^verbatim>\<open>undefined\<close>) is an \<open>option\<close>.
  \<^item> An object used as a dictionary is read through its own properties and, for a key
    it does not own, through the properties every object literal inherits.
  \<^item> The rendering library is outside the repository. Its vectors, quaternions and
    meshes are modelled by the arithmetic the library documents, over the reals.
\<close>

subsection \<open>JavaScript values\<close>

text \<open>\<^verbatim>\<open>String(n)\<close> of an integer: its decimal digits, with a minus sign when negative.\<close>

definition digit_char :: "nat \<Rightarrow> char" where
  "digit_char d = ''0123456789'' ! d"

fun digits :: "nat \<Rightarrow> string" where
  "digits n = (if n < 10 then [digit_char n] else digits (n div 10) @ [digit_char (n mod 10)])"

declare digits.simps [simp del]

definition String_js :: "int \<Rightarrow> string" where
  "String_js i = (if i < 0 then CHR ''-'' # digits (nat (- i)) else digits (nat i))"

text \<open>The remainder operator \<^verbatim>\<open>%\<close>: the sign of the result is the sign of the dividend.\<close>

definition js_rem :: "int \<Rightarrow> int \<Rightarrow> int" where
  "js_rem a b = sgn a * (\<bar>a\<bar> mod \<bar>b\<bar>)"

text \<open>\<^verbatim>\<open>toLowerCase\<close>, on the ASCII letters.\<close>

definition toLowerCase_char :: "char \<Rightarrow> char" where
  "toLowerCase_char c =
     (case map_of (zip ''ABCDEFGHIJKLMNOPQRSTUVWXYZ'' ''abcdefghijklmnopqrstuvwxyz'') c of
        Some l \<Rightarrow> l
      | None \<Rightarrow> c)"

definition toLowerCase :: "string \<Rightarrow> string" where
  "toLowerCase s = map toLowerCase_char s"

text \<open>
  Reading \<^verbatim>\<open>obj[key]\<close> on an object literal gives the object's own property, or else
  what \<^verbatim>\<open>Object.prototype\<close> holds under that name (a function, or the prototype
  itself for \<^verbatim>\<open>__proto__\<close>: a truthy value that is neither a number nor one of the
  literal's entries), or else \<^verbatim>\<open>undefined\<close>.
\<close>

datatype 'a js_prop = Own 'a | Inherited | Undefined

definition Object_prototype_keys :: "string list" where
  "Object_prototype_keys =
     [''constructor'', ''__defineGetter__'', ''__defineSetter__'', ''hasOwnProperty'',
      ''__lookupGetter__'', ''__lookupSetter__'', ''isPrototypeOf'', ''propertyIsEnumerable'',
      ''toString'', ''valueOf'', ''__proto__'', ''toLocaleString'']"

definition js_get :: "(string \<rightharpoonup> 'a) \<Rightarrow> string \<Rightarrow> 'a js_prop" where
  "js_get obj key =
     (case obj key of
        Some v \<Rightarrow> Own v
      | None \<Rightarrow> if key \<in> set Object_prototype_keys then Inherited else Undefined)"

subsection \<open>Vectors, quaternions and meshes of the rendering library\<close>

datatype Vector3 = Vector3 (vx: real) (vy: real) (vz: real)

datatype Quaternion = Quaternion (qx: real) (qy: real) (qz: real) (qw: real)

text \<open>A new quaternion is the identity rotation.\<close>

definition identity_quaternion :: Quaternion where
  "identity_quaternion = Quaternion 0 0 0 1"

definition degToRad :: "real \<Rightarrow> real" where
  "degToRad degrees = degrees * (pi / 180)"

definition setFromAxisAngle :: "Vector3 \<Rightarrow> real \<Rightarrow> Quaternion" where
  "setFromAxisAngle axis angle =
     (let halfAngle = angle / 2; s = sin halfAngle
      in Quaternion (vx axis * s) (vy axis * s) (vz axis * s) (cos halfAngle))"

text \<open>\<^verbatim>\<open>a.multiply(b)\<close>: the Hamilton product \<open>a * b\<close>.\<close>

definition multiply :: "Quaternion \<Rightarrow> Quaternion \<Rightarrow> Quaternion" where
  "multiply a b =
     Quaternion
       (qx a * qw b + qw a * qx b + qy a * qz b - qz a * qy b)
       (qy a * qw b + qw a * qy b + qz a * qx b - qx a * qz b)
       (qz a * qw b + qw a * qz b + qx a * qy b - qy a * qx b)
       (qw a * qw b - qx a * qx b - qy a * qy b - qz a * qz b)"

text \<open>\<^verbatim>\<open>v.applyQuaternion(q)\<close>: \<open>v + w t + q \<times> t\<close> with \<open>t = 2 (q \<times> v)\<close>.\<close>

definition applyQuaternion :: "Vector3 \<Rightarrow> Quaternion \<Rightarrow> Vector3" where
  "applyQuaternion v q =
     (let tx = 2 * (qy q * vz v - qz q * vy v);
          ty = 2 * (qz q * vx v - qx q * vz v);
          tz = 2 * (qx q * vy v - qy q * vx v)
      in Vector3
           (vx v + qw q * tx + qy q * tz - qz q * ty)
           (vy v + qw q * ty + qz q * tx - qx q * tz)
           (vz v + qw q * tz + qx q * ty - qy q * tx))"

definition add :: "Vector3 \<Rightarrow> Vector3 \<Rightarrow> Vector3" where
  "add a b = Vector3 (vx a + vx b) (vy a + vy b) (vz a + vz b)"

definition sub :: "Vector3 \<Rightarrow> Vector3 \<Rightarrow> Vector3" where
  "sub a b = Vector3 (vx a - vx b) (vy a - vy b) (vz a - vz b)"

text \<open>
  The colour handed to a material: \<^verbatim>\<open>getBrickColorHex\<close> returns a number of the
  colour table, or whatever else the lookup produced.
\<close>

datatype colour_value = Hex nat | NotANumber

text \<open>
  A mesh: its box geometry, its material colour, its position and its quaternion. The
  scene and the group the meshes are added to are never moved, rotated or scaled, so
  the world transform of a mesh is its own position and quaternion:
  \<^verbatim>\<open>localToWorld\<close> rotates a local point by the quaternion and adds the position, and
  \<^verbatim>\<open>getWorldQuaternion\<close> gives the quaternion back. (The library goes through the
  world matrix, which for a unit quaternion describes the same rotation; the model
  takes the quaternion it reads back to be the one stored, sign included.)
\<close>

record Mesh =
  geometry :: Vector3
  material :: colour_value
  position :: Vector3
  quaternion :: Quaternion

definition localToWorld :: "Mesh \<Rightarrow> Vector3 \<Rightarrow> Vector3" where
  "localToWorld mesh v = add (applyQuaternion v (quaternion mesh)) (position mesh)"

definition getWorldQuaternion :: "Mesh \<Rightarrow> Quaternion" where
  "getWorldQuaternion mesh = quaternion mesh"

subsection \<open>Constants and the brick catalog\<close>

definition STUD_SIZE :: real where
  "STUD_SIZE = 2"

definition PLATE_HEIGHT :: real where
  "PLATE_HEIGHT = 24 / 10"

text \<open>
  An entry of \<^verbatim>\<open>BRICK_DEFINITIONS\<close>. \<^verbatim>\<open>HoleOffsets\<close> returns \<open>Some\<close> of a vector
  when the value it returns is a \<^verbatim>\<open>THREE.Vector3\<close>, which is what the caller tests;
  \<^verbatim>\<open>IsBase\<close> is \<open>False\<close> where the entry has no such field; the hole id lists are
  \<open>None\<close> where the entry has none.
\<close>

record BrickDefinition =
  Size :: Vector3
  HoleOffsets :: "int \<Rightarrow> Vector3 option"
  IsBase :: bool
  TopHoleIds :: "int list option"
  BottomHoleIds :: "int list option"

definition base_HoleOffsets :: "int \<Rightarrow> Vector3 option" where
  "base_HoleOffsets holeId =
     (let col = js_rem holeId 4;
          row = \<lfloor>real_of_int holeId / 4\<rfloor>;
          xOffset = (real_of_int col - 15 / 10) * STUD_SIZE;
          zOffset = (real_of_int row - 15 / 10) * STUD_SIZE;
          yOffset = PLATE_HEIGHT / 2
      in Some (Vector3 xOffset yOffset zOffset))"

definition HoleOffsets_3x1 :: "int \<Rightarrow> Vector3 option" where
  "HoleOffsets_3x1 holeId =
     (let yOffset = (if holeId \<le> 2 then PLATE_HEIGHT / 2 else - PLATE_HEIGHT / 2);
          xOffset0 = 0;
          xOffset1 = (if holeId = 0 \<or> holeId = 3 then - 1 * STUD_SIZE else xOffset0);
          xOffset = (if holeId = 2 \<or> holeId = 5 then 1 * STUD_SIZE else xOffset1);
          zOffset = 0
      in Some (Vector3 xOffset yOffset zOffset))"

definition HoleOffsets_2x1 :: "int \<Rightarrow> Vector3 option" where
  "HoleOffsets_2x1 holeId =
     (let yOffset = (if holeId \<le> 1 then PLATE_HEIGHT / 2 else - PLATE_HEIGHT / 2);
          xOffset = (if holeId = 0 \<or> holeId = 2 then - (5 / 10) * STUD_SIZE else (5 / 10) * STUD_SIZE);
          zOffset = 0
      in Some (Vector3 xOffset yOffset zOffset))"

definition HoleOffsets_1x1 :: "int \<Rightarrow> Vector3 option" where
  "HoleOffsets_1x1 holeId =
     (let yOffset = (if holeId = 0 then PLATE_HEIGHT / 2 else - PLATE_HEIGHT / 2);
          xOffset = 0;
          zOffset = 0
      in Some (Vector3 xOffset yOffset zOffset))"

definition base_definition :: BrickDefinition where
  "base_definition =
     \<lparr> Size = Vector3 (4 * STUD_SIZE) PLATE_HEIGHT (4 * STUD_SIZE),
       HoleOffsets = base_HoleOffsets,
       IsBase = True,
       TopHoleIds = None,
       BottomHoleIds = None \<rparr>"

definition definition_3x1 :: BrickDefinition where
  "definition_3x1 =
     \<lparr> Size = Vector3 (3 * STUD_SIZE) PLATE_HEIGHT (1 * STUD_SIZE),
       HoleOffsets = HoleOffsets_3x1,
       IsBase = False,
       TopHoleIds = Some [0, 1, 2],
       BottomHoleIds = Some [3, 4, 5] \<rparr>"

definition definition_2x1 :: BrickDefinition where
  "definition_2x1 =
     \<lparr> Size = Vector3 (2 * STUD_SIZE) PLATE_HEIGHT (1 * STUD_SIZE),
       HoleOffsets = HoleOffsets_2x1,
       IsBase = False,
       TopHoleIds = Some [0, 1],
       BottomHoleIds = Some [2, 3] \<rparr>"

definition definition_1x1 :: BrickDefinition where
  "definition_1x1 =
     \<lparr> Size = Vector3 (1 * STUD_SIZE) PLATE_HEIGHT (1 * STUD_SIZE),
       HoleOffsets = HoleOffsets_1x1,
       IsBase = False,
       TopHoleIds = Some [0],
       BottomHoleIds = Some [1] \<rparr>"

definition BRICK_DEFINITIONS :: "string \<rightharpoonup> BrickDefinition" where
  "BRICK_DEFINITIONS =
     [''base'' \<mapsto> base_definition,
      ''3x1'' \<mapsto> definition_3x1,
      ''2x1'' \<mapsto> definition_2x1,
      ''1x1'' \<mapsto> definition_1x1]"

definition COLOR_MAP :: "string \<rightharpoonup> nat" where
  "COLOR_MAP =
     [''white'' \<mapsto> 0xffffff,
      ''yellow'' \<mapsto> 0xffff00,
      ''blue'' \<mapsto> 0x0000ff,
      ''orange'' \<mapsto> 0xffa500,
      ''pink'' \<mapsto> 0xffc0cb,
      ''purple'' \<mapsto> 0x800080,
      ''green'' \<mapsto> 0x00ff00,
      ''default'' \<mapsto> 0x888888]"

definition getBrickDefinition :: "string \<Rightarrow> BrickDefinition js_prop" where
  "getBrickDefinition brickType = js_get BRICK_DEFINITIONS brickType"

text \<open>
  \<^verbatim>\<open>COLOR_MAP[colorName?.toLowerCase()] || COLOR_MAP["default"]\<close>. An absent name reads
  the key \<^verbatim>\<open>undefined\<close>. The left operand is returned when it is truthy: a number
  other than zero, or an inherited property.
\<close>

definition getBrickColorHex :: "string option \<Rightarrow> colour_value" where
  "getBrickColorHex colorName =
     (let key = (case colorName of None \<Rightarrow> ''undefined'' | Some n \<Rightarrow> toLowerCase n);
          fallback = (case js_get COLOR_MAP ''default'' of Own d \<Rightarrow> Hex d | _ \<Rightarrow> NotANumber)
      in case js_get COLOR_MAP key of
           Own c \<Rightarrow> if c \<noteq> 0 then Hex c else fallback
         | Inherited \<Rightarrow> NotANumber
         | Undefined \<Rightarrow> fallback)"

definition isTopHole :: "BrickDefinition js_prop \<Rightarrow> int \<Rightarrow> bool" where
  "isTopHole brickDef holeId =
     (case brickDef of
        Undefined \<Rightarrow> False
      | Inherited \<Rightarrow> False
      | Own d \<Rightarrow>
          if IsBase d then True
          else (case TopHoleIds d of None \<Rightarrow> False | Some ids \<Rightarrow> holeId \<in> set ids))"

subsection \<open>The input records\<close>

text \<open>
  One entry of a brick's \<^verbatim>\<open>holes\<close> array (\<open>hole_id\<close> is its field \<^verbatim>\<open>id\<close>) and one
  brick of the structure array (\<open>brick_id\<close> and \<open>brick_type\<close> are its fields
  \<^verbatim>\<open>id\<close> and \<^verbatim>\<open>type\<close>; \<open>holes\<close> is \<open>None\<close> when the field is not an array).
\<close>

record HoleData =
  hole_id :: "int option"
  brick :: "int option"
  connectedToHole :: "int option"
  orientation :: "real option"

record BrickData =
  brick_id :: "int option"
  brick_type :: string
  colour :: "string option"
  holes :: "HoleData list option"

text \<open>
  The lookup table by \<^verbatim>\<open>String(brickData.id)\<close>: a later record with the same key
  replaces an earlier one, a record without an id is left out.
\<close>

definition index_brick :: "BrickData \<Rightarrow> (string \<rightharpoonup> BrickData) \<Rightarrow> (string \<rightharpoonup> BrickData)" where
  "index_brick brickData m =
     (case brick_id brickData of
        Some i \<Rightarrow> m(String_js i \<mapsto> brickData)
      | None \<Rightarrow> m)"

definition bricksById :: "BrickData list \<Rightarrow> string \<rightharpoonup> BrickData" where
  "bricksById decodedData = fold index_brick decodedData Map.empty"

subsection \<open>The state of a build\<close>

text \<open>
  A mesh added to \<^verbatim>\<open>structureGroup\<close> is kept together with the key it is stored
  under in \<^verbatim>\<open>threeMeshes\<close> and with the connection it was created from: the brick
  and mesh being processed, the two brick definitions, the two hole ids and the
  orientation used. The source keeps the mesh alone; the rest is bookkeeping that
  lets the theorems speak about the connections that were followed.
\<close>

record Connection =
  from_key :: string
  from_mesh :: Mesh
  from_def :: BrickDefinition
  from_hole :: int
  to_def :: BrickDefinition
  to_hole :: int
  degrees :: real

record Child =
  child_key :: string
  child_mesh :: Mesh
  via :: Connection

record build_state =
  threeMeshes :: "string \<rightharpoonup> Mesh"
  processedBrickIds :: "string set"
  queue :: "string list"
  basePlateMesh :: "Mesh option"
  structureGroup :: "Child list"

text \<open>After \<^verbatim>\<open>clearStructure\<close>, with the fresh local tables.\<close>

definition cleared :: build_state where
  "cleared =
     \<lparr> threeMeshes = Map.empty, processedBrickIds = {}, queue = [],
       basePlateMesh = None, structureGroup = [] \<rparr>"

datatype build_error = MissingBase | InvalidBaseType | TypeError

type_synonym outcome = "(build_error \<times> build_state) + build_state"

text \<open>The scene an outcome leaves: of a completed build, or at the point it stopped.\<close>

definition scene :: "outcome \<Rightarrow> build_state" where
  "scene r = (case r of Inl (e, st) \<Rightarrow> st | Inr st \<Rightarrow> st)"

subsection \<open>Placing one connected brick\<close>

text \<open>
  The core placement logic: the world rotation and the position of the new brick from
  the mesh of the current brick, the two local hole offsets and the orientation.
\<close>

definition worldRotation :: "Mesh \<Rightarrow> real \<Rightarrow> Quaternion" where
  "worldRotation currentMesh orientation_degrees =
     (let parentQuaternion = getWorldQuaternion currentMesh;
          relativeRotation = setFromAxisAngle (Vector3 0 1 0) (- degToRad orientation_degrees)
      in multiply parentQuaternion relativeRotation)"

definition newBrickPosition :: "Mesh \<Rightarrow> Vector3 \<Rightarrow> Vector3 \<Rightarrow> real \<Rightarrow> Vector3" where
  "newBrickPosition currentMesh bottomHoleLocalOffset topHoleLocalOffset orientation_degrees =
     (let bottomHoleWorldPos = localToWorld currentMesh bottomHoleLocalOffset;
          centerOffset = applyQuaternion topHoleLocalOffset (worldRotation currentMesh orientation_degrees)
      in sub bottomHoleWorldPos centerOffset)"

text \<open>
  The mesh created for the connected brick, with the connection it comes from, and
  the four updates that follow its creation: the mesh joins \<^verbatim>\<open>structureGroup\<close>
  and \<^verbatim>\<open>threeMeshes\<close>, its id is marked as processed and is pushed on the queue.
\<close>

definition newMesh ::
  "string \<Rightarrow> Mesh \<Rightarrow> BrickDefinition \<Rightarrow> int \<Rightarrow> string \<Rightarrow> BrickData \<Rightarrow> BrickDefinition \<Rightarrow>
   int \<Rightarrow> real \<Rightarrow> Vector3 \<Rightarrow> Vector3 \<Rightarrow> Child" where
  "newMesh currentBrickId currentMesh currentBrickDef holeId connectedBrickIdStr connectedBrickData
     connectedBrickDef toHole d bottomHoleLocalOffset topHoleLocalOffset =
     \<lparr> child_key = connectedBrickIdStr,
       child_mesh =
         \<lparr> geometry = Size connectedBrickDef,
           material = getBrickColorHex (colour connectedBrickData),
           position = newBrickPosition currentMesh bottomHoleLocalOffset topHoleLocalOffset d,
           quaternion = worldRotation currentMesh d \<rparr>,
       via = \<lparr> from_key = currentBrickId, from_mesh = currentMesh,
               from_def = currentBrickDef, from_hole = holeId,
               to_def = connectedBrickDef, to_hole = toHole, degrees = d \<rparr> \<rparr>"

definition add_child :: "build_state \<Rightarrow> Child \<Rightarrow> build_state" where
  "add_child st added =
     st\<lparr> structureGroup := structureGroup st @ [added],
         threeMeshes := (threeMeshes st)(child_key added \<mapsto> child_mesh added),
         processedBrickIds := insert (child_key added) (processedBrickIds st),
         queue := queue st @ [child_key added] \<rparr>"

definition mark_processed :: "build_state \<Rightarrow> string \<Rightarrow> build_state" where
  "mark_processed st key = st\<lparr>processedBrickIds := insert key (processedBrickIds st)\<rparr>"

text \<open>
  The body of \<^verbatim>\<open>holes.forEach\<close> for one hole of the current brick. \<open>Inl\<close> is the
  exception raised by calling \<^verbatim>\<open>HoleOffsets\<close> on a value that has no such method.
  The orientation is \<^verbatim>\<open>holeData.orientation || 0\<close>.
\<close>

definition process_hole ::
  "(string \<rightharpoonup> BrickData) \<Rightarrow> string \<Rightarrow> Mesh \<Rightarrow> BrickDefinition js_prop \<Rightarrow>
   build_state \<Rightarrow> HoleData \<Rightarrow> outcome" where
  "process_hole bricks currentBrickId currentMesh currentBrickDef st holeData =
     (case (brick holeData, hole_id holeData) of
        (None, _) \<Rightarrow> Inr st
      | (Some b, None) \<Rightarrow> Inr st
      | (Some b, Some holeId) \<Rightarrow>
          let connectedBrickIdStr = String_js b in
          if connectedBrickIdStr \<noteq> ''-1'' \<and> isTopHole currentBrickDef holeId then
            if connectedBrickIdStr \<notin> processedBrickIds st then
              (case bricks connectedBrickIdStr of
                 None \<Rightarrow> Inr (mark_processed st connectedBrickIdStr)
               | Some connectedBrickData \<Rightarrow>
                   (case getBrickDefinition (brick_type connectedBrickData) of
                      Undefined \<Rightarrow> Inr st
                    | connectedBrickDef \<Rightarrow>
                        (case connectedToHole holeData of
                           None \<Rightarrow> Inr st
                         | Some toHole \<Rightarrow>
                             (case (currentBrickDef, connectedBrickDef) of
                                (Own cdef, Own tdef) \<Rightarrow>
                                  (case (HoleOffsets cdef holeId, HoleOffsets tdef toHole) of
                                     (Some bottomHoleLocalOffset, Some topHoleLocalOffset) \<Rightarrow>
                                       let d = (case orientation holeData of None \<Rightarrow> 0 | Some v \<Rightarrow> v)
                                       in Inr (add_child st
                                                 (newMesh currentBrickId currentMesh cdef holeId
                                                    connectedBrickIdStr connectedBrickData tdef toHole d
                                                    bottomHoleLocalOffset topHoleLocalOffset))
                                   | _ \<Rightarrow> Inr st)
                              | _ \<Rightarrow> Inl (TypeError, st)))))
            else Inr st
          else Inr st)"

text \<open>\<^verbatim>\<open>forEach\<close> with a callback that may raise: the first exception ends it.\<close>

fun forEach :: "(build_state \<Rightarrow> 'a \<Rightarrow> outcome) \<Rightarrow> 'a list \<Rightarrow> build_state \<Rightarrow> outcome" where
  "forEach f [] st = Inr st"
| "forEach f (x # xs) st = (case f st x of Inl e \<Rightarrow> Inl e | Inr st' \<Rightarrow> forEach f xs st')"

text \<open>The body of the \<^verbatim>\<open>while\<close> loop for the id just taken from the queue.\<close>

definition process_brick :: "(string \<rightharpoonup> BrickData) \<Rightarrow> string \<Rightarrow> build_state \<Rightarrow> outcome" where
  "process_brick bricks currentBrickId st =
     (case (bricks currentBrickId, threeMeshes st currentBrickId) of
        (Some currentBrickData, Some currentMesh) \<Rightarrow>
          (let currentBrickDef = getBrickDefinition (brick_type currentBrickData) in
           case (currentBrickDef, holes currentBrickData) of
             (Undefined, _) \<Rightarrow> Inr st
           | (_, None) \<Rightarrow> Inr st
           | (_, Some hs) \<Rightarrow>
               forEach (process_hole bricks currentBrickId currentMesh currentBrickDef) hs st)
      | _ \<Rightarrow> Inr st)"

subsection \<open>The keys of the tables indexed by brick id\<close>

text \<open>
  \<^verbatim>\<open>bricksById\<close>, \<^verbatim>\<open>threeMeshes\<close> and \<^verbatim>\<open>processedBrickIds\<close> are object literals as
  well. Every key they are read or written with is \<^verbatim>\<open>String\<close> of an integer id: a
  decimal numeral, which is not the name of any inherited property. Reading them is
  therefore reading their own properties, and they are modelled as plain maps and a
  plain set.
\<close>

lemma digit_char_digit: "d < 10 \<Longrightarrow> digit_char d \<in> set ''0123456789''"
  unfolding digit_char_def by (rule nth_mem) simp

lemma digits_chars: "set (digits n) \<subseteq> set ''0123456789''"
proof (induction n rule: digits.induct)
  case (1 n)
  show ?case
  proof (cases "n < 10")
    case True
    then show ?thesis using digit_char_digit [of n] by (subst digits.simps) simp
  next
    case False
    have "digit_char (n mod 10) \<in> set ''0123456789''" by (rule digit_char_digit) simp
    with False "1.IH" show ?thesis by (subst digits.simps) simp
  qed
qed



lemma digits_within: "set ''0123456789'' \<subseteq> set ''-0123456789''"
  by (rule set_subset_Cons)

lemma String_js_chars: "set (String_js i) \<subseteq> set ''-0123456789''"
proof (cases "i < 0")
  case True
  have "set (digits (nat (- i))) \<subseteq> set ''-0123456789''"
    using digits_chars digits_within by (rule subset_trans)
  moreover have "CHR ''-'' \<in> set ''-0123456789''" by (rule list.set_intros)
  ultimately show ?thesis using True by (simp only: String_js_def if_True list.set insert_subset)
next
  case False
  have "set (digits (nat i)) \<subseteq> set ''-0123456789''"
    using digits_chars digits_within by (rule subset_trans)
  then show ?thesis using False by (simp only: String_js_def if_False)
qed


lemma digits_not_empty: "digits n \<noteq> []"
  by (subst digits.simps) simp

lemma String_js_hd: "hd (String_js i) \<in> set ''-0123456789''"
proof -
  have "String_js i \<noteq> []" by (simp add: String_js_def digits_not_empty)
  then have "hd (String_js i) \<in> set (String_js i)" by (rule hd_in_set)
  with String_js_chars [of i] show ?thesis by (rule subsetD)
qed


lemma inherited_key_hd: "\<forall>k \<in> set Object_prototype_keys. hd k \<notin> set ''-0123456789''"
  unfolding Object_prototype_keys_def by simp

lemma String_js_not_inherited: "String_js i \<notin> set Object_prototype_keys"
proof
  assume "String_js i \<in> set Object_prototype_keys"
  with inherited_key_hd have "hd (String_js i) \<notin> set ''-0123456789''" by (rule bspec)
  with String_js_hd [of i] show False by (rule notE [rotated])
qed

lemma js_get_String_js:
  "js_get obj (String_js i) = (case obj (String_js i) of Some v \<Rightarrow> Own v | None \<Rightarrow> Undefined)"
  by (simp add: js_get_def String_js_not_inherited)

subsection \<open>What one hole can do to the state\<close>

text \<open>
  A child is \<open>placed_by\<close> its connection when the hole it hangs on is a top hole of the
  brick below, both local offsets exist, and its rotation and position are the ones
  the core placement logic computes from the mesh below.
\<close>

definition placed_by :: "Child \<Rightarrow> bool" where
  "placed_by c =
     (isTopHole (Own (from_def (via c))) (from_hole (via c)) \<and>
      (\<exists>bottomHoleLocalOffset topHoleLocalOffset.
         HoleOffsets (from_def (via c)) (from_hole (via c)) = Some bottomHoleLocalOffset \<and>
         HoleOffsets (to_def (via c)) (to_hole (via c)) = Some topHoleLocalOffset \<and>
         quaternion (child_mesh c) = worldRotation (from_mesh (via c)) (degrees (via c)) \<and>
         position (child_mesh c) =
           newBrickPosition (from_mesh (via c)) bottomHoleLocalOffset topHoleLocalOffset
             (degrees (via c))))"

text \<open>
  A child \<open>connects\<close> to a hole record of the brick below when the recorded connection
  is the one the hole record describes: the hole id, the id of the connected brick,
  the hole of the connected brick, the orientation (zero when absent), and the
  definition, size and colour of the connected brick's own record.
\<close>

definition connects ::
  "(string \<rightharpoonup> BrickData) \<Rightarrow> BrickDefinition js_prop \<Rightarrow> HoleData \<Rightarrow> Child \<Rightarrow> bool" where
  "connects bricks currentBrickDef holeData c =
     (currentBrickDef = Own (from_def (via c)) \<and>
      hole_id holeData = Some (from_hole (via c)) \<and>
      (\<exists>b. brick holeData = Some b \<and> String_js b = child_key c) \<and>
      connectedToHole holeData = Some (to_hole (via c)) \<and>
      degrees (via c) = (case orientation holeData of None \<Rightarrow> 0 | Some v \<Rightarrow> v) \<and>
      (\<exists>connectedBrickData.
         bricks (child_key c) = Some connectedBrickData \<and>
         getBrickDefinition (brick_type connectedBrickData) = Own (to_def (via c)) \<and>
         geometry (child_mesh c) = Size (to_def (via c)) \<and>
         material (child_mesh c) = getBrickColorHex (colour connectedBrickData)))"

text \<open>
  A child is \<open>wired\<close> into the input when the brick below has a record, and the child
  connects to one of the hole records of that record.
\<close>

definition wired :: "(string \<rightharpoonup> BrickData) \<Rightarrow> Child \<Rightarrow> bool" where
  "wired bricks c =
     (\<exists>currentBrickData hs holeData.
        bricks (from_key (via c)) = Some currentBrickData \<and>
        holes currentBrickData = Some hs \<and>
        holeData \<in> set hs \<and>
        connects bricks (getBrickDefinition (brick_type currentBrickData)) holeData c)"

text \<open>
  The four effects of \<open>process_hole\<close>: nothing, the exception, marking an id that has
  no record, or adding the mesh of a brick that has a record and was not processed.
\<close>

inductive hole_effect ::
  "(string \<rightharpoonup> BrickData) \<Rightarrow> string \<Rightarrow> Mesh \<Rightarrow> BrickDefinition js_prop \<Rightarrow> HoleData \<Rightarrow>
   build_state \<Rightarrow> outcome \<Rightarrow> bool" where
  skip: "hole_effect bricks currentBrickId currentMesh currentBrickDef holeData st (Inr st)"
| throw: "hole_effect bricks currentBrickId currentMesh currentBrickDef holeData st (Inl (TypeError, st))"
| mark: "key \<notin> processedBrickIds st \<Longrightarrow> bricks key = None \<Longrightarrow>
         hole_effect bricks currentBrickId currentMesh currentBrickDef holeData st
           (Inr (mark_processed st key))"
| add: "child_key added \<notin> processedBrickIds st \<Longrightarrow> bricks (child_key added) \<noteq> None \<Longrightarrow>
        from_key (via added) = currentBrickId \<Longrightarrow> from_mesh (via added) = currentMesh \<Longrightarrow>
        placed_by added \<Longrightarrow> connects bricks currentBrickDef holeData added \<Longrightarrow>
        hole_effect bricks currentBrickId currentMesh currentBrickDef holeData st
          (Inr (add_child st added))"

text \<open>
  The base plate as the build creates it: stored under the key \<^verbatim>\<open>"1"\<close>, at the origin,
  with the rotation of a new mesh.
\<close>

definition base_placed :: "build_state \<Rightarrow> bool" where
  "base_placed st =
     (\<exists>basePlate. basePlateMesh st = Some basePlate \<and> threeMeshes st ''1'' = Some basePlate \<and>
                  position basePlate = Vector3 0 0 0 \<and> quaternion basePlate = identity_quaternion)"

text \<open>
  What holds of every state of the loop: the base plate is in place and processed;
  every stored mesh belongs to a processed id; no id has two meshes in the group; and
  every child of the group is stored under its key, stands on a stored mesh, is
  placed by its connection and is wired into the input.
\<close>

definition loop_inv :: "(string \<rightharpoonup> BrickData) \<Rightarrow> build_state \<Rightarrow> bool" where
  "loop_inv bricks st =
     (base_placed st \<and>
      dom (threeMeshes st) \<subseteq> processedBrickIds st \<and>
      distinct (''1'' # map child_key (structureGroup st)) \<and>
      (\<forall>c \<in> set (structureGroup st).
         threeMeshes st (child_key c) = Some (child_mesh c) \<and>
         threeMeshes st (from_key (via c)) = Some (from_mesh (via c)) \<and>
         placed_by c \<and> wired bricks c))"

lemma fold_index_Some:
  "fold index_brick xs m0 k = Some b \<Longrightarrow>
     m0 k = Some b \<or> (b \<in> set xs \<and> (\<exists>i. brick_id b = Some i \<and> String_js i = k))"
proof (induction xs arbitrary: m0)
  case Nil
  then show ?case by simp
next
  case (Cons a xs)
  from Cons.prems have "fold index_brick xs (index_brick a m0) k = Some b" by simp
  from Cons.IH [OF this] show ?case
    by (auto simp: index_brick_def split: option.splits if_splits)
qed

lemma bricksById_Some:
  "bricksById decodedData k = Some b \<Longrightarrow>
     b \<in> set decodedData \<and> (\<exists>i. brick_id b = Some i \<and> String_js i = k)"
  unfolding bricksById_def using fold_index_Some [of decodedData Map.empty k b] by simp

lemma finite_dom_bricksById: "finite (dom (bricksById decodedData))"
proof -
  have "dom (bricksById decodedData) \<subseteq> (\<lambda>b. String_js (the (brick_id b))) ` set decodedData"
  proof
    fix k assume "k \<in> dom (bricksById decodedData)"
    then obtain b where "bricksById decodedData k = Some b" by blast
    from bricksById_Some [OF this] show "k \<in> (\<lambda>b. String_js (the (brick_id b))) ` set decodedData"
      by force
  qed
  then show ?thesis by (rule finite_subset) simp
qed

lemma newMesh_simps [simp]:
  "child_key (newMesh cid cmesh cdef hid k data tdef toHole d bo to) = k"
  "from_key (via (newMesh cid cmesh cdef hid k data tdef toHole d bo to)) = cid"
  "from_mesh (via (newMesh cid cmesh cdef hid k data tdef toHole d bo to)) = cmesh"
  by (simp_all add: newMesh_def)

lemma placed_by_newMesh:
  "isTopHole (Own cdef) hid \<Longrightarrow> HoleOffsets cdef hid = Some bo \<Longrightarrow> HoleOffsets tdef toHole = Some to \<Longrightarrow>
   placed_by (newMesh cid cmesh cdef hid k data tdef toHole d bo to)"
  by (simp add: placed_by_def newMesh_def)

lemma connects_newMesh:
  "hole_id h = Some hid \<Longrightarrow> brick h = Some b \<Longrightarrow> connectedToHole h = Some toHole \<Longrightarrow>
   bricks (String_js b) = Some data \<Longrightarrow> getBrickDefinition (brick_type data) = Own tdef \<Longrightarrow>
   d = (case orientation h of None \<Rightarrow> 0 | Some v \<Rightarrow> v) \<Longrightarrow>
   connects bricks (Own cdef) h (newMesh cid cmesh cdef hid (String_js b) data tdef toHole d bo to)"
  by (simp add: connects_def newMesh_def)

lemma process_hole_effect:
  "hole_effect bricks cid cmesh cdef h st (process_hole bricks cid cmesh cdef st h)"
  unfolding process_hole_def
  by (auto simp: Let_def intro!: hole_effect.intros placed_by_newMesh connects_newMesh
           split: option.splits js_prop.splits prod.splits)

text \<open>
  The number of records not yet processed plus the length of the queue: no hole
  increases it, and taking an id from the queue decreases it.
\<close>

definition pending :: "(string \<rightharpoonup> BrickData) \<Rightarrow> build_state \<Rightarrow> nat" where
  "pending bricks st = card (dom bricks - processedBrickIds st) + length (queue st)"

lemma hole_effect_pending:
  assumes "hole_effect bricks cid cmesh cdef h st r" and "r = Inr st'" and "finite (dom bricks)"
  shows "pending bricks st' = pending bricks st"
  using assms
proof (cases rule: hole_effect.cases)
  case skip
  with assms show ?thesis by simp
next
  case throw
  with assms show ?thesis by simp
next
  case (mark key)
  then have "dom bricks - insert key (processedBrickIds st) = dom bricks - processedBrickIds st"
    by auto
  with mark assms show ?thesis by (simp add: pending_def mark_processed_def)
next
  case (add added)
  let ?k = "child_key added"
  from add have in_dom: "?k \<in> dom bricks - processedBrickIds st" by auto
  have fin: "finite (dom bricks - processedBrickIds st)" using assms(3) by simp
  have "dom bricks - insert ?k (processedBrickIds st) = (dom bricks - processedBrickIds st) - {?k}"
    by auto
  then have "card (dom bricks - insert ?k (processedBrickIds st)) = card (dom bricks - processedBrickIds st) - 1"
    using in_dom fin by simp
  moreover have "card (dom bricks - processedBrickIds st) > 0"
    using in_dom fin card_gt_0_iff by blast
  ultimately show ?thesis using add assms by (simp add: pending_def add_child_def)
qed

lemma forEach_pending:
  "finite (dom bricks) \<Longrightarrow>
   forEach (process_hole bricks cid cmesh cdef) hs st = Inr st' \<Longrightarrow>
   pending bricks st' = pending bricks st"
proof (induction hs arbitrary: st)
  case Nil
  then show ?case by simp
next
  case (Cons h hs)
  from Cons.prems(2) obtain st1 where
    s1: "process_hole bricks cid cmesh cdef st h = Inr st1" and
    s2: "forEach (process_hole bricks cid cmesh cdef) hs st1 = Inr st'"
    by (auto split: sum.splits)
  have "pending bricks st1 = pending bricks st"
    using hole_effect_pending [OF process_hole_effect s1 Cons.prems(1)] .
  with Cons.IH [OF Cons.prems(1) s2] show ?case by simp
qed

lemma process_brick_pending:
  "finite (dom bricks) \<Longrightarrow> process_brick bricks cid st = Inr st' \<Longrightarrow>
   pending bricks st' = pending bricks st"
  unfolding process_brick_def
  by (auto simp: Let_def dest: forEach_pending split: option.splits js_prop.splits prod.splits)

subsection \<open>The loop and the whole build\<close>

text \<open>
  The \<^verbatim>\<open>while (queue.length > 0)\<close> loop: take the first id, process its holes, go on
  with the state that leaves; an exception ends the loop.
\<close>

function bfs_loop :: "BrickData list \<Rightarrow> build_state \<Rightarrow> outcome" where
  "bfs_loop decodedData st =
     (case queue st of
        [] \<Rightarrow> Inr st
      | currentBrickId # rest \<Rightarrow>
          (case process_brick (bricksById decodedData) currentBrickId (st\<lparr>queue := rest\<rparr>) of
             Inl e \<Rightarrow> Inl e
           | Inr st' \<Rightarrow> bfs_loop decodedData st'))"
  by pat_completeness auto

lemma bfs_loop_terminates: "All bfs_loop_dom"
proof (relation "measure (\<lambda>(decodedData, st). pending (bricksById decodedData) st)")
  show "wf (measure (\<lambda>(decodedData, st). pending (bricksById decodedData) st))" by simp
next
  fix decodedData :: "BrickData list" and st st' :: build_state and currentBrickId rest
  assume q: "queue st = currentBrickId # rest"
    and p: "process_brick (bricksById decodedData) currentBrickId (st\<lparr>queue := rest\<rparr>) = Inr st'"
  have "pending (bricksById decodedData) st' = pending (bricksById decodedData) (st\<lparr>queue := rest\<rparr>)"
    using process_brick_pending [OF finite_dom_bricksById p] .
  also have "\<dots> < pending (bricksById decodedData) st"
    using q by (simp add: pending_def)
  finally show "((decodedData, st'), (decodedData, st)) \<in> measure (\<lambda>(decodedData, st). pending (bricksById decodedData) st)"
    by simp
qed

termination bfs_loop
  by (rule bfs_loop_terminates)

declare bfs_loop.simps [simp del]

text \<open>
  \<^verbatim>\<open>buildStructure\<close> for an array of records. The base brick is the record stored
  under the key \<^verbatim>\<open>"1"\<close>; without it, or when its type is not \<^verbatim>\<open>"base"\<close>, the build
  stops with nothing in the scene. Otherwise the base mesh is created at the origin
  with the rotation of a new mesh, and the loop starts from its id.
\<close>

definition buildStructure :: "BrickData list \<Rightarrow> outcome" where
  "buildStructure structureData =
     (let decodedData = structureData;
          bricks = bricksById decodedData
      in case bricks ''1'' of
           None \<Rightarrow> Inl (MissingBase, cleared)
         | Some baseData \<Rightarrow>
             if brick_type baseData \<noteq> ''base'' then Inl (MissingBase, cleared)
             else (case getBrickDefinition (brick_type baseData) of
                     Undefined \<Rightarrow> Inl (InvalidBaseType, cleared)
                   | Inherited \<Rightarrow> Inl (TypeError, cleared)
                   | Own baseDef \<Rightarrow>
                       let basePlate =
                             \<lparr> geometry = Size baseDef,
                               material = getBrickColorHex (colour baseData),
                               position = Vector3 0 0 0,
                               quaternion = identity_quaternion \<rparr>;
                           baseKey = (case brick_id baseData of
                                        Some i \<Rightarrow> String_js i
                                      | None \<Rightarrow> ''undefined'')
                       in bfs_loop decodedData
                            \<lparr> threeMeshes = [baseKey \<mapsto> basePlate],
                              processedBrickIds = {baseKey},
                              queue = [baseKey],
                              basePlateMesh = Some basePlate,
                              structureGroup = [] \<rparr>))"


subsection \<open>The invariant of the loop\<close>

lemma scene_simps [simp]: "scene (Inr st) = st" "scene (Inl (e, st)) = st"
  by (simp_all add: scene_def)

lemma loop_inv_queue [simp]: "loop_inv bricks (st\<lparr>queue := q\<rparr>) = loop_inv bricks st"
  by (simp add: loop_inv_def base_placed_def)

lemma loop_inv_mark:
  "loop_inv bricks st \<Longrightarrow> loop_inv bricks (mark_processed st key)"
  by (auto simp: loop_inv_def base_placed_def mark_processed_def)

lemma loop_inv_add:
  assumes inv: "loop_inv bricks st"
    and new: "child_key added \<notin> processedBrickIds st"
    and par: "threeMeshes st (from_key (via added)) = Some (from_mesh (via added))"
    and pl: "placed_by added" and w: "wired bricks added"
  shows "loop_inv bricks (add_child st added)"
proof -
  let ?k = "child_key added"
  have fresh: "threeMeshes st ?k = None"
    using inv new by (auto simp: loop_inv_def)
  have old: "\<And>j v. threeMeshes st j = Some v \<Longrightarrow> j \<noteq> ?k"
    using fresh by auto
  have base: "base_placed (add_child st added)"
    using inv old by (auto simp: loop_inv_def base_placed_def add_child_def)
  have doms: "dom (threeMeshes (add_child st added)) \<subseteq> processedBrickIds (add_child st added)"
    using inv by (auto simp: loop_inv_def add_child_def)
  have k1: "?k \<noteq> ''1''"
  proof -
    from inv obtain basePlate where "threeMeshes st ''1'' = Some basePlate"
      by (auto simp: loop_inv_def base_placed_def)
    from old [OF this] show ?thesis by simp
  qed
  have stored: "\<And>c. c \<in> set (structureGroup st) \<Longrightarrow>
                     threeMeshes st (child_key c) = Some (child_mesh c)"
    using inv by (simp add: loop_inv_def)
  have knew: "?k \<notin> child_key ` set (structureGroup st)"
  proof
    assume "?k \<in> child_key ` set (structureGroup st)"
    then obtain c where c: "c \<in> set (structureGroup st)" and "child_key c = ?k" by auto
    with stored [OF c] fresh show False by simp
  qed
  have dist: "distinct (''1'' # map child_key (structureGroup (add_child st added)))"
    using inv k1 knew by (auto simp: loop_inv_def add_child_def)
  have each: "\<forall>c \<in> set (structureGroup (add_child st added)).
         threeMeshes (add_child st added) (child_key c) = Some (child_mesh c) \<and>
         threeMeshes (add_child st added) (from_key (via c)) = Some (from_mesh (via c)) \<and>
         placed_by c \<and> wired bricks c"
  proof
    fix c assume "c \<in> set (structureGroup (add_child st added))"
    then consider "c \<in> set (structureGroup st)" | "c = added"
      by (auto simp: add_child_def)
    then show "threeMeshes (add_child st added) (child_key c) = Some (child_mesh c) \<and>
         threeMeshes (add_child st added) (from_key (via c)) = Some (from_mesh (via c)) \<and>
         placed_by c \<and> wired bricks c"
    proof cases
      case 1
      with inv have a: "threeMeshes st (child_key c) = Some (child_mesh c)"
        and b: "threeMeshes st (from_key (via c)) = Some (from_mesh (via c))"
        and c: "placed_by c" "wired bricks c"
        by (auto simp: loop_inv_def)
      from old [OF a] old [OF b] a b c show ?thesis by (simp add: add_child_def)
    next
      case 2
      with old [OF par] par pl w show ?thesis by (simp add: add_child_def)
    qed
  qed
  from base doms dist each show ?thesis unfolding loop_inv_def by blast
qed

lemma threeMeshes_mark [simp]: "threeMeshes (mark_processed st key) = threeMeshes st"
  by (simp add: mark_processed_def)

lemma stored_add:
  "dom (threeMeshes st) \<subseteq> processedBrickIds st \<Longrightarrow> child_key added \<notin> processedBrickIds st \<Longrightarrow>
   threeMeshes st j = Some v \<Longrightarrow> threeMeshes (add_child st added) j = Some v"
  by (auto simp: add_child_def)

lemma hole_effect_inv:
  assumes eff: "hole_effect bricks cid cmesh cdef h st r"
    and inv: "loop_inv bricks st"
    and cur: "threeMeshes st cid = Some cmesh"
    and rec: "bricks cid = Some currentBrickData" "holes currentBrickData = Some hs" "h \<in> set hs"
             "cdef = getBrickDefinition (brick_type currentBrickData)"
  shows "loop_inv bricks (scene r) \<and> threeMeshes (scene r) cid = Some cmesh"
  using eff
proof (cases rule: hole_effect.cases)
  case skip
  with inv cur show ?thesis by simp
next
  case throw
  with inv cur show ?thesis by simp
next
  case (mark key)
  with inv cur show ?thesis by (simp add: loop_inv_mark)
next
  case (add added)
  have w: "wired bricks added"
    unfolding wired_def using add rec by blast
  have "loop_inv bricks (add_child st added)"
    using loop_inv_add [OF inv add(2)] add cur w by simp
  moreover have "threeMeshes (add_child st added) cid = Some cmesh"
    using stored_add [OF _ add(2) cur] inv by (simp add: loop_inv_def)
  ultimately show ?thesis using add by simp
qed

lemma forEach_inv:
  assumes rec: "bricks cid = Some currentBrickData" "holes currentBrickData = Some hs"
               "cdef = getBrickDefinition (brick_type currentBrickData)"
  shows "set hs' \<subseteq> set hs \<Longrightarrow> loop_inv bricks st \<Longrightarrow> threeMeshes st cid = Some cmesh \<Longrightarrow>
         loop_inv bricks (scene (forEach (process_hole bricks cid cmesh cdef) hs' st))"
proof (induction hs' arbitrary: st)
  case Nil
  then show ?case by simp
next
  case (Cons h hs')
  have h: "h \<in> set hs" using Cons.prems(1) by simp
  have step: "loop_inv bricks (scene (process_hole bricks cid cmesh cdef st h)) \<and>
              threeMeshes (scene (process_hole bricks cid cmesh cdef st h)) cid = Some cmesh"
    using hole_effect_inv [OF process_hole_effect Cons.prems(2,3) rec(1,2) h rec(3)] .
  show ?case
  proof (cases "process_hole bricks cid cmesh cdef st h")
    case (Inl e)
    with step show ?thesis by (cases e) simp
  next
    case (Inr st1)
    with step Cons.IH [of st1] Cons.prems(1) show ?thesis by simp
  qed
qed

lemma process_brick_inv:
  "loop_inv bricks st \<Longrightarrow> loop_inv bricks (scene (process_brick bricks cid st))"
  unfolding process_brick_def
  by (auto simp: Let_def intro: forEach_inv split: option.splits js_prop.splits prod.splits)

lemma bfs_loop_inv:
  "loop_inv (bricksById decodedData) st \<Longrightarrow>
   loop_inv (bricksById decodedData) (scene (bfs_loop decodedData st))"
proof (induction decodedData st rule: bfs_loop.induct)
  case (1 decodedData st)
  show ?case
  proof (cases "queue st")
    case Nil
    with "1.prems" show ?thesis by (simp add: bfs_loop.simps)
  next
    case (Cons currentBrickId rest)
    have step: "loop_inv (bricksById decodedData)
                  (scene (process_brick (bricksById decodedData) currentBrickId (st\<lparr>queue := rest\<rparr>)))"
      using process_brick_inv "1.prems" by simp
    show ?thesis
    proof (cases "process_brick (bricksById decodedData) currentBrickId (st\<lparr>queue := rest\<rparr>)")
      case (Inl e)
      with step Cons show ?thesis by (cases e) (simp add: bfs_loop.simps)
    next
      case (Inr st')
      with step Cons "1.IH" [OF Cons Inr] show ?thesis by (simp add: bfs_loop.simps)
    qed
  qed
qed

subsection \<open>The outcomes of a build\<close>

lemma bfs_loop_completed:
  "bfs_loop decodedData st = Inr st' \<Longrightarrow> queue st' = []"
proof (induction decodedData st rule: bfs_loop.induct)
  case (1 decodedData st)
  show ?case
  proof (cases "queue st")
    case Nil
    with "1.prems" show ?thesis by (simp add: bfs_loop.simps)
  next
    case (Cons currentBrickId rest)
    with "1.prems" "1.IH" [OF Cons] show ?thesis
      by (auto simp: bfs_loop.simps split: sum.splits)
  qed
qed

lemma hole_effect_error:
  "hole_effect bricks cid cmesh cdef h st (Inl (e, st')) \<Longrightarrow> e = TypeError"
  by (auto elim: hole_effect.cases)

lemma forEach_error:
  "forEach (process_hole bricks cid cmesh cdef) hs st = Inl (e, st') \<Longrightarrow> e = TypeError"
proof (induction hs arbitrary: st)
  case Nil
  then show ?case by simp
next
  case (Cons h hs)
  show ?case
  proof (cases "process_hole bricks cid cmesh cdef st h")
    case (Inl x)
    with Cons.prems have "process_hole bricks cid cmesh cdef st h = Inl (e, st')" by simp
    with process_hole_effect [of bricks cid cmesh cdef h st] show ?thesis
      by (simp add: hole_effect_error)
  next
    case (Inr st1)
    with Cons show ?thesis by simp
  qed
qed

lemma process_brick_error:
  "process_brick bricks cid st = Inl (e, st') \<Longrightarrow> e = TypeError"
  unfolding process_brick_def
  by (auto simp: Let_def dest: forEach_error split: option.splits js_prop.splits prod.splits)

lemma bfs_loop_error:
  "bfs_loop decodedData st = Inl (e, st') \<Longrightarrow> e = TypeError"
proof (induction decodedData st rule: bfs_loop.induct)
  case (1 decodedData st)
  show ?case
  proof (cases "queue st")
    case Nil
    with "1.prems" show ?thesis by (simp add: bfs_loop.simps)
  next
    case (Cons currentBrickId rest)
    with "1.prems" "1.IH" [OF Cons] show ?thesis
      by (auto simp: bfs_loop.simps dest: process_brick_error split: sum.splits)
  qed
qed

lemma getBrickDefinition_base [simp]: "getBrickDefinition ''base'' = Own base_definition"
  by (simp add: getBrickDefinition_def js_get_def BRICK_DEFINITIONS_def)

lemma bricksById_key:
  "bricksById decodedData k = Some b \<Longrightarrow>
     (case brick_id b of Some i \<Rightarrow> String_js i | None \<Rightarrow> ''undefined'') = k"
  using bricksById_Some [of decodedData k b] by auto

text \<open>The state the loop starts from, once the base record is found.\<close>

definition start :: "BrickData \<Rightarrow> build_state" where
  "start baseData =
     (let basePlate = \<lparr> geometry = Size base_definition,
                               material = getBrickColorHex (colour baseData),
                               position = Vector3 0 0 0,
                               quaternion = identity_quaternion \<rparr>
      in \<lparr> threeMeshes = [''1'' \<mapsto> basePlate],
                              processedBrickIds = {''1''},
                              queue = [''1''],
                              basePlateMesh = Some basePlate,
                              structureGroup = [] \<rparr>)"

lemma loop_inv_start: "loop_inv bricks (start baseData)"
  by (simp add: loop_inv_def base_placed_def start_def Let_def)

lemma buildStructure_eq:
  "buildStructure structureData =
     (case bricksById structureData ''1'' of
        None \<Rightarrow> Inl (MissingBase, cleared)
      | Some baseData \<Rightarrow>
          if brick_type baseData \<noteq> ''base'' then Inl (MissingBase, cleared)
          else bfs_loop structureData (start baseData))"
  unfolding buildStructure_def
  by (auto simp: Let_def start_def dest: bricksById_key split: option.splits)

lemma buildStructure_cases:
  obtains (missing) "buildStructure structureData = Inl (MissingBase, cleared)"
    "\<And>baseData. bricksById structureData ''1'' = Some baseData \<Longrightarrow> brick_type baseData \<noteq> ''base''"
  | (completed) st baseData where "buildStructure structureData = Inr st" "queue st = []"
      "loop_inv (bricksById structureData) st"
      "bricksById structureData ''1'' = Some baseData" "brick_type baseData = ''base''"
  | (thrown) st baseData where "buildStructure structureData = Inl (TypeError, st)"
      "loop_inv (bricksById structureData) st"
      "bricksById structureData ''1'' = Some baseData" "brick_type baseData = ''base''"
proof (cases "bricksById structureData ''1''")
  case None
  then show ?thesis using missing by (simp add: buildStructure_eq)
next
  case (Some baseData)
  show ?thesis
  proof (cases "brick_type baseData = ''base''")
    case False
    with Some show ?thesis using missing by (simp add: buildStructure_eq)
  next
    case True
    with Some have run: "buildStructure structureData = bfs_loop structureData (start baseData)"
      by (simp add: buildStructure_eq)
    have inv: "loop_inv (bricksById structureData) (scene (bfs_loop structureData (start baseData)))"
      using bfs_loop_inv [OF loop_inv_start] .
    show ?thesis
    proof (cases "bfs_loop structureData (start baseData)")
      case (Inl x)
      obtain e st where x: "x = (e, st)" by (cases x)
      with Inl bfs_loop_error have "e = TypeError" by blast
      with Inl x run inv Some True show ?thesis using thrown by simp
    next
      case (Inr st)
      with run inv bfs_loop_completed Some True show ?thesis using completed by simp
    qed
  qed
qed

lemma scene_cleared [simp]: "structureGroup cleared = []" "basePlateMesh cleared = None"
  "threeMeshes cleared = Map.empty" "queue cleared = []"
  by (simp_all add: cleared_def)

lemma child_of_build:
  assumes "c \<in> set (structureGroup (scene (buildStructure structureData)))"
  shows "loop_inv (bricksById structureData) (scene (buildStructure structureData))"
  using assms by (cases structureData rule: buildStructure_cases) auto

lemma add_sub_cancel: "add x (sub b x) = b"
  by (cases b) (simp add: add_def sub_def)

subsection \<open>Running a build on a concrete structure\<close>

text \<open>
  The scenario of one child: the base, whose hole 0 holds brick 56 by its hole 1 with
  orientation 0, and brick 56 of type 1x1, whose bottom hole points back to the base.
\<close>

definition empty_hole :: "int \<Rightarrow> HoleData" where
  "empty_hole k = \<lparr> hole_id = Some k, brick = Some (- 1), connectedToHole = Some (- 1), orientation = Some 0 \<rparr>"

definition hole_to :: "int \<Rightarrow> int \<Rightarrow> int \<Rightarrow> real \<Rightarrow> HoleData" where
  "hole_to k b t d = \<lparr> hole_id = Some k, brick = Some b, connectedToHole = Some t, orientation = Some d \<rparr>"

definition scenario_base :: "string option \<Rightarrow> BrickData" where
  "scenario_base c = \<lparr> brick_id = Some 1, brick_type = ''base'', colour = c,
      holes = Some [hole_to 0 56 1 0, empty_hole 1] \<rparr>"

definition scenario_56 :: "string option \<Rightarrow> BrickData" where
  "scenario_56 c = \<lparr> brick_id = Some 56, brick_type = ''1x1'', colour = c,
      holes = Some [empty_hole 0, hole_to 1 1 0 0] \<rparr>"

definition scenario :: "string option \<Rightarrow> string option \<Rightarrow> BrickData list" where
  "scenario c1 c2 = [scenario_base c1, scenario_56 c2]"

lemma String_js_1 [simp]: "String_js 1 = ''1''" by code_simp
lemma String_js_56 [simp]: "String_js 56 = ''56''" by code_simp
lemma String_js_m1 [simp]: "String_js (- 1) = ''-1''" by code_simp

lemma getBrickDefinition_1x1 [simp]: "getBrickDefinition ''1x1'' = Own definition_1x1"
  by (simp add: getBrickDefinition_def js_get_def BRICK_DEFINITIONS_def)

lemma add_child_simps [simp]:
  "structureGroup (add_child st c) = structureGroup st @ [c]"
  "threeMeshes (add_child st c) = (threeMeshes st)(child_key c \<mapsto> child_mesh c)"
  "processedBrickIds (add_child st c) = insert (child_key c) (processedBrickIds st)"
  "queue (add_child st c) = queue st @ [child_key c]"
  "basePlateMesh (add_child st c) = basePlateMesh st"
  by (simp_all add: add_child_def)

lemma mark_processed_simps [simp]:
  "structureGroup (mark_processed st k) = structureGroup st"
  "processedBrickIds (mark_processed st k) = insert k (processedBrickIds st)"
  "queue (mark_processed st k) = queue st"
  "basePlateMesh (mark_processed st k) = basePlateMesh st"
  by (simp_all add: mark_processed_def)

definition base_plate_of :: "BrickData \<Rightarrow> Mesh" where
  "base_plate_of baseData = \<lparr> geometry = Size base_definition,
                               material = getBrickColorHex (colour baseData),
                               position = Vector3 0 0 0,
                               quaternion = identity_quaternion \<rparr>"

lemma start_simps [simp]:
  "structureGroup (start b) = []"
  "threeMeshes (start b) = [''1'' \<mapsto> base_plate_of b]"
  "processedBrickIds (start b) = {''1''}"
  "queue (start b) = [''1'']"
  "basePlateMesh (start b) = Some (base_plate_of b)"
  by (simp_all add: start_def base_plate_of_def Let_def)

lemma bfs_loop_Nil: "queue st = [] \<Longrightarrow> bfs_loop d st = Inr st"
  by (simp add: bfs_loop.simps)

lemma bfs_loop_Cons:
  "queue st = c # rest \<Longrightarrow> process_brick (bricksById d) c (st\<lparr>queue := rest\<rparr>) = Inr st' \<Longrightarrow>
   bfs_loop d st = bfs_loop d st'"
  by (simp add: bfs_loop.simps)

lemma bricks_scenario:
  "bricksById (scenario c1 c2) = [''1'' \<mapsto> scenario_base c1, ''56'' \<mapsto> scenario_56 c2]"
  by (simp add: scenario_def bricksById_def index_brick_def scenario_base_def scenario_56_def)

definition mesh_56 :: "string option \<Rightarrow> Mesh" where
  "mesh_56 c = \<lparr> geometry = Vector3 2 (12 / 5) 2, material = getBrickColorHex c,
                 position = Vector3 (- 3) (12 / 5) (- 3), quaternion = identity_quaternion \<rparr>"

definition child_56 :: "string option \<Rightarrow> string option \<Rightarrow> Child" where
  "child_56 c1 c2 = \<lparr> child_key = ''56'', child_mesh = mesh_56 c2,
      via = \<lparr> from_key = ''1'', from_mesh = base_plate_of (scenario_base c1), from_def = base_definition, from_hole = 0,
               to_def = definition_1x1, to_hole = 1, degrees = 0 \<rparr> \<rparr>"

lemma base_offset_0: "HoleOffsets base_definition 0 = Some (Vector3 (- 3) (6 / 5) (- 3))"
  by (simp add: base_definition_def base_HoleOffsets_def js_rem_def STUD_SIZE_def PLATE_HEIGHT_def)

lemma offset_1x1_1: "HoleOffsets definition_1x1 1 = Some (Vector3 0 (- (6 / 5)) 0)"
  by (simp add: definition_1x1_def HoleOffsets_1x1_def PLATE_HEIGHT_def)

lemma worldRotation_identity_0:
  "quaternion m = identity_quaternion \<Longrightarrow> worldRotation m 0 = identity_quaternion"
  by (simp add: worldRotation_def getWorldQuaternion_def setFromAxisAngle_def degToRad_def
        multiply_def identity_quaternion_def)

lemma newMesh_56:
  "newMesh ''1'' (base_plate_of (scenario_base c1)) base_definition 0 ''56'' (scenario_56 c2) definition_1x1 1 0
     (Vector3 (- 3) (6 / 5) (- 3)) (Vector3 0 (- (6 / 5)) 0) = child_56 c1 c2"
  by (simp add: newMesh_def child_56_def mesh_56_def newBrickPosition_def worldRotation_identity_0
        base_plate_of_def localToWorld_def applyQuaternion_def add_def sub_def identity_quaternion_def
        definition_1x1_def scenario_56_def STUD_SIZE_def PLATE_HEIGHT_def)

lemma isTopHole_base [simp]: "isTopHole (Own base_definition) k"
  by (simp add: isTopHole_def base_definition_def)

lemma scenario_hole_0:
  "process_hole (bricksById (scenario c1 c2)) ''1'' (base_plate_of (scenario_base c1)) (Own base_definition)
     ((start (scenario_base c1))\<lparr>queue := []\<rparr>) (hole_to 0 56 1 0)
   = Inr (add_child ((start (scenario_base c1))\<lparr>queue := []\<rparr>) (child_56 c1 c2))"
  by (simp add: process_hole_def hole_to_def bricks_scenario base_offset_0 offset_1x1_1 newMesh_56
        scenario_56_def [THEN arg_cong [where f = brick_type]])


lemma scenario_base_simps [simp]:
  "brick_type (scenario_base c) = ''base''" "colour (scenario_base c) = c"
  "holes (scenario_base c) = Some [hole_to 0 56 1 0, empty_hole 1]"
  by (simp_all add: scenario_base_def)

lemma scenario_56_simps [simp]:
  "brick_type (scenario_56 c) = ''1x1''" "colour (scenario_56 c) = c"
  "holes (scenario_56 c) = Some [empty_hole 0, hole_to 1 1 0 0]"
  by (simp_all add: scenario_56_def)

lemma process_empty_hole [simp]:
  "process_hole bricks cid cmesh cdef st (empty_hole k) = Inr st"
  by (simp add: process_hole_def empty_hole_def)

lemma process_bottom_hole:
  "\<not> isTopHole cdef k \<Longrightarrow> process_hole bricks cid cmesh cdef st (hole_to k b t d) = Inr st"
  by (simp add: process_hole_def hole_to_def)

lemma not_top_1x1_1: "\<not> isTopHole (Own definition_1x1) 1"
  by (simp add: isTopHole_def definition_1x1_def)

definition scenario_1 :: "string option \<Rightarrow> string option \<Rightarrow> build_state" where
  "scenario_1 c1 c2 = add_child ((start (scenario_base c1))\<lparr>queue := []\<rparr>) (child_56 c1 c2)"

lemma scenario_brick_1:
  "process_brick (bricksById (scenario c1 c2)) ''1'' ((start (scenario_base c1))\<lparr>queue := []\<rparr>)
   = Inr (scenario_1 c1 c2)"
  using scenario_hole_0 [of c1 c2]
  by (simp add: process_brick_def bricks_scenario scenario_1_def)

lemma scenario_1_simps [simp]:
  "queue (scenario_1 c1 c2) = [''56'']"
  "threeMeshes (scenario_1 c1 c2) = [''1'' \<mapsto> base_plate_of (scenario_base c1), ''56'' \<mapsto> mesh_56 c2]"
  "structureGroup (scenario_1 c1 c2) = [child_56 c1 c2]"
  "basePlateMesh (scenario_1 c1 c2) = Some (base_plate_of (scenario_base c1))"
  "processedBrickIds (scenario_1 c1 c2) = {''56'', ''1''}"
  by (simp_all add: scenario_1_def child_56_def)

lemma scenario_brick_56:
  "process_brick (bricksById (scenario c1 c2)) ''56'' ((scenario_1 c1 c2)\<lparr>queue := []\<rparr>)
   = Inr ((scenario_1 c1 c2)\<lparr>queue := []\<rparr>)"
  by (simp add: process_brick_def bricks_scenario process_bottom_hole not_top_1x1_1)

lemma scenario_run:
  "buildStructure (scenario c1 c2) = Inr ((scenario_1 c1 c2)\<lparr>queue := []\<rparr>)"
proof -
  have "buildStructure (scenario c1 c2) = bfs_loop (scenario c1 c2) (start (scenario_base c1))"
    by (simp add: buildStructure_eq bricks_scenario)
  also have "\<dots> = bfs_loop (scenario c1 c2) (scenario_1 c1 c2)"
    by (rule bfs_loop_Cons [OF _ scenario_brick_1]) simp
  also have "\<dots> = bfs_loop (scenario c1 c2) ((scenario_1 c1 c2)\<lparr>queue := []\<rparr>)"
    by (rule bfs_loop_Cons [OF _ scenario_brick_56]) simp
  also have "\<dots> = Inr ((scenario_1 c1 c2)\<lparr>queue := []\<rparr>)"
    by (rule bfs_loop_Nil) simp
  finally show ?thesis .
qed

subsection \<open>Facts about the meshes of a finished build\<close>

lemma child_facts:
  assumes "c \<in> set (structureGroup (scene (buildStructure structureData)))"
  shows "threeMeshes (scene (buildStructure structureData)) (child_key c) = Some (child_mesh c)"
    and "threeMeshes (scene (buildStructure structureData)) (from_key (via c)) = Some (from_mesh (via c))"
    and "placed_by c" and "wired (bricksById structureData) c"
  using child_of_build [OF assms] assms by (auto simp: loop_inv_def)

lemma child_56_in_scenario:
  "child_56 c1 c2 \<in> set (structureGroup (scene (buildStructure (scenario c1 c2))))"
  by (simp add: scenario_run)

text \<open>The ids that have a mesh in the scene: the base plate, then the group in order.\<close>

definition placed_keys :: "build_state \<Rightarrow> string list" where
  "placed_keys st =
     (case basePlateMesh st of None \<Rightarrow> [] | Some plate \<Rightarrow> [''1'']) @
     map child_key (structureGroup st)"

lemma String_js_2 [simp]: "String_js 2 = ''2''" by code_simp

lemma String_js_3 [simp]: "String_js 3 = ''3''" by code_simp


lemma catalog_cases:
  assumes "getBrickDefinition brickType = Own d"
  obtains "brickType = ''base''" "d = base_definition"
    | "brickType = ''3x1''" "d = definition_3x1"
    | "brickType = ''2x1''" "d = definition_2x1"
    | "brickType = ''1x1''" "d = definition_1x1"
  using assms
  by (auto simp: getBrickDefinition_def js_get_def BRICK_DEFINITIONS_def
           split: option.splits if_splits)

subsection \<open>Stored meshes stay\<close>

lemma hole_effect_keeps:
  assumes "hole_effect bricks cid cmesh cdef h st r"
    and "dom (threeMeshes st) \<subseteq> processedBrickIds st"
  shows "threeMeshes st \<subseteq>\<^sub>m threeMeshes (scene r)"
  using assms
proof (cases rule: hole_effect.cases)
  case (add added)
  with assms(2) have "child_key added \<notin> dom (threeMeshes st)" by blast
  with add show ?thesis by (simp add: map_le_def add_child_def)
qed (simp_all add: map_le_def)

lemma forEach_keeps:
  assumes rec: "bricks cid = Some currentBrickData" "holes currentBrickData = Some hs"
               "cdef = getBrickDefinition (brick_type currentBrickData)"
  shows "set hs' \<subseteq> set hs \<Longrightarrow> loop_inv bricks st \<Longrightarrow> threeMeshes st cid = Some cmesh \<Longrightarrow>
         threeMeshes st \<subseteq>\<^sub>m threeMeshes (scene (forEach (process_hole bricks cid cmesh cdef) hs' st))"
proof (induction hs' arbitrary: st)
  case Nil
  then show ?case by simp
next
  case (Cons h hs')
  have h: "h \<in> set hs" using Cons.prems(1) by simp
  have step: "loop_inv bricks (scene (process_hole bricks cid cmesh cdef st h)) \<and>
              threeMeshes (scene (process_hole bricks cid cmesh cdef st h)) cid = Some cmesh"
    using hole_effect_inv [OF process_hole_effect Cons.prems(2,3) rec(1,2) h rec(3)] .
  have keep: "threeMeshes st \<subseteq>\<^sub>m threeMeshes (scene (process_hole bricks cid cmesh cdef st h))"
    using hole_effect_keeps [OF process_hole_effect] Cons.prems(2) by (simp add: loop_inv_def)
  show ?case
  proof (cases "process_hole bricks cid cmesh cdef st h")
    case (Inl e)
    with keep show ?thesis by (cases e) simp
  next
    case (Inr st1)
    with step Cons.IH [of st1] Cons.prems(1) keep show ?thesis
      by (auto intro: map_le_trans)
  qed
qed

lemma process_brick_keeps:
  "loop_inv bricks st \<Longrightarrow> threeMeshes st \<subseteq>\<^sub>m threeMeshes (scene (process_brick bricks cid st))"
  unfolding process_brick_def
  by (auto simp: Let_def intro: forEach_keeps split: option.splits js_prop.splits prod.splits)

lemma bfs_loop_keeps:
  "loop_inv (bricksById decodedData) st \<Longrightarrow>
   threeMeshes st \<subseteq>\<^sub>m threeMeshes (scene (bfs_loop decodedData st))"
proof (induction decodedData st rule: bfs_loop.induct)
  case (1 decodedData st)
  show ?case
  proof (cases "queue st")
    case Nil
    then show ?thesis by (simp add: bfs_loop.simps)
  next
    case (Cons currentBrickId rest)
    let ?st0 = "st\<lparr>queue := rest\<rparr>"
    have inv0: "loop_inv (bricksById decodedData) ?st0" using "1.prems" by simp
    have keep: "threeMeshes st \<subseteq>\<^sub>m
                threeMeshes (scene (process_brick (bricksById decodedData) currentBrickId ?st0))"
      using process_brick_keeps [OF inv0, of currentBrickId] by simp
    have step: "loop_inv (bricksById decodedData)
                  (scene (process_brick (bricksById decodedData) currentBrickId ?st0))"
      using process_brick_inv [OF inv0] .
    show ?thesis
    proof (cases "process_brick (bricksById decodedData) currentBrickId ?st0")
      case (Inl e)
      with keep Cons show ?thesis by (cases e) (simp add: bfs_loop.simps)
    next
      case (Inr st')
      with step have "loop_inv (bricksById decodedData) st'" by simp
      from "1.IH" [OF Cons Inr this] keep Inr Cons show ?thesis
        by (auto simp: bfs_loop.simps intro: map_le_trans)
    qed
  qed
qed

lemma process_hole_processed:
  "brick holeData = Some b \<Longrightarrow> String_js b \<in> processedBrickIds st \<Longrightarrow>
   process_hole bricks cid cmesh cdef st holeData = Inr st"
  by (simp add: process_hole_def Let_def split: option.splits)

lemma placed_keys_distinct:
  "loop_inv bricks st \<Longrightarrow> distinct (placed_keys st)"
  by (auto simp: loop_inv_def placed_keys_def split: option.splits)

subsection \<open>Marking an id that has no record\<close>

text \<open>An outcome with one more id marked as processed in the state it carries.\<close>

definition mark_outcome :: "string \<Rightarrow> outcome \<Rightarrow> outcome" where
  "mark_outcome key r =
     (case r of
        Inl (e, st) \<Rightarrow> Inl (e, mark_processed st key)
      | Inr st \<Rightarrow> Inr (mark_processed st key))"

lemma mark_outcome_simps [simp]:
  "mark_outcome key (Inr st) = Inr (mark_processed st key)"
  "mark_outcome key (Inl (e, st)) = Inl (e, mark_processed st key)"
  by (simp_all add: mark_outcome_def)

lemma mark_twice [simp]: "mark_processed (mark_processed st key) key = mark_processed st key"
  by (simp add: mark_processed_def)








lemma process_hole_dangling:
  "brick holeData = Some b \<Longrightarrow> hole_id holeData = Some holeId \<Longrightarrow> String_js b \<noteq> ''-1'' \<Longrightarrow>
   isTopHole currentBrickDef holeId \<Longrightarrow> String_js b \<notin> processedBrickIds st \<Longrightarrow>
   bricks (String_js b) = None \<Longrightarrow>
   process_hole bricks cid cmesh currentBrickDef st holeData = Inr (mark_processed st (String_js b))"
  by (simp add: process_hole_def Let_def)

subsection \<open>A structure with a dangling reference and a cycle\<close>

text \<open>
  The base holds an id without a record (99) on hole 0 and brick 2 on hole 1; brick 2
  carries brick 3 on its top hole, and the top hole of brick 3 points back to brick 2.
\<close>

definition tangled_base :: BrickData where
  "tangled_base = \<lparr> brick_id = Some 1, brick_type = ''base'', colour = Some ''white'',
      holes = Some [hole_to 0 99 1 0, hole_to 1 2 1 0] \<rparr>"

definition tangled_2 :: BrickData where
  "tangled_2 = \<lparr> brick_id = Some 2, brick_type = ''1x1'', colour = Some ''blue'',
      holes = Some [hole_to 0 3 1 0, hole_to 1 1 1 0] \<rparr>"

definition tangled_3 :: BrickData where
  "tangled_3 = \<lparr> brick_id = Some 3, brick_type = ''1x1'', colour = Some ''pink'',
      holes = Some [hole_to 0 2 1 0, hole_to 1 2 0 0] \<rparr>"

definition tangled :: "BrickData list" where
  "tangled = [tangled_base, tangled_2, tangled_3]"

lemma String_js_99 [simp]: "String_js 99 = ''99''" by code_simp

lemma tangled_simps [simp]:
  "brick_type tangled_base = ''base''"
  "holes tangled_base = Some [hole_to 0 99 1 0, hole_to 1 2 1 0]"
  "brick_type tangled_2 = ''1x1''"
  "holes tangled_2 = Some [hole_to 0 3 1 0, hole_to 1 1 1 0]"
  "brick_type tangled_3 = ''1x1''"
  "holes tangled_3 = Some [hole_to 0 2 1 0, hole_to 1 2 0 0]"
  by (simp_all add: tangled_base_def tangled_2_def tangled_3_def)

lemma bricks_tangled:
  "bricksById tangled = [''1'' \<mapsto> tangled_base, ''2'' \<mapsto> tangled_2, ''3'' \<mapsto> tangled_3]"
  by (simp add: tangled_def bricksById_def index_brick_def tangled_base_def tangled_2_def
        tangled_3_def)

lemma process_hole_add:
  "String_js b \<noteq> ''-1'' \<Longrightarrow> isTopHole (Own cdef) k \<Longrightarrow> String_js b \<notin> processedBrickIds st \<Longrightarrow>
   bricks (String_js b) = Some data \<Longrightarrow> getBrickDefinition (brick_type data) = Own tdef \<Longrightarrow>
   HoleOffsets cdef k = Some bo \<Longrightarrow> HoleOffsets tdef t = Some to \<Longrightarrow>
   process_hole bricks cid cmesh (Own cdef) st (hole_to k b t d) =
     Inr (add_child st (newMesh cid cmesh cdef k (String_js b) data tdef t d bo to))"
  by (simp add: process_hole_def hole_to_def)

lemma base_offset_1: "HoleOffsets base_definition 1 = Some (Vector3 (- 1) (6 / 5) (- 3))"
  by (simp add: base_definition_def base_HoleOffsets_def js_rem_def STUD_SIZE_def PLATE_HEIGHT_def)

lemma offset_1x1_0: "HoleOffsets definition_1x1 0 = Some (Vector3 0 (6 / 5) 0)"
  by (simp add: definition_1x1_def HoleOffsets_1x1_def PLATE_HEIGHT_def)

lemma top_1x1_0: "isTopHole (Own definition_1x1) 0"
  by (simp add: isTopHole_def definition_1x1_def)

definition tangled_child_2 :: Child where
  "tangled_child_2 = newMesh ''1'' (base_plate_of tangled_base) base_definition 1 ''2'' tangled_2
                       definition_1x1 1 0 (Vector3 (- 1) (6 / 5) (- 3)) (Vector3 0 (- (6 / 5)) 0)"

definition tangled_child_3 :: Child where
  "tangled_child_3 = newMesh ''2'' (child_mesh tangled_child_2) definition_1x1 0 ''3'' tangled_3
                       definition_1x1 1 0 (Vector3 0 (6 / 5) 0) (Vector3 0 (- (6 / 5)) 0)"

lemma tangled_child_keys [simp]:
  "child_key tangled_child_2 = ''2''" "child_key tangled_child_3 = ''3''"
  by (simp_all add: tangled_child_2_def tangled_child_3_def)

definition tangled_0 :: build_state where
  "tangled_0 = (start tangled_base)\<lparr>queue := []\<rparr>"

definition tangled_1 :: build_state where
  "tangled_1 = add_child (mark_processed tangled_0 ''99'') tangled_child_2"

definition tangled_2_state :: build_state where
  "tangled_2_state = add_child (tangled_1\<lparr>queue := []\<rparr>) tangled_child_3"

definition tangled_final :: build_state where
  "tangled_final = tangled_2_state\<lparr>queue := []\<rparr>"

lemma tangled_0_simps [simp]:
  "processedBrickIds tangled_0 = {''1''}"
  "threeMeshes tangled_0 = [''1'' \<mapsto> base_plate_of tangled_base]"
  "queue tangled_0 = []"
  by (simp_all add: tangled_0_def)

lemma tangled_1_simps [simp]:
  "processedBrickIds tangled_1 = {''2'', ''99'', ''1''}"
  "threeMeshes tangled_1 ''2'' = Some (child_mesh tangled_child_2)"
  "queue tangled_1 = [''2'']"
  by (simp_all add: tangled_1_def)

lemma tangled_2_state_simps [simp]:
  "processedBrickIds tangled_2_state = {''3'', ''2'', ''99'', ''1''}"
  "threeMeshes tangled_2_state ''3'' = Some (child_mesh tangled_child_3)"
  "queue tangled_2_state = [''3'']"
  by (simp_all add: tangled_2_state_def)

lemma tangled_brick_1:
  "process_brick (bricksById tangled) ''1'' ((start tangled_base)\<lparr>queue := []\<rparr>) = Inr tangled_1"
proof -
  have h0: "process_hole (bricksById tangled) ''1'' (base_plate_of tangled_base) (Own base_definition)
              tangled_0 (hole_to 0 99 1 0) = Inr (mark_processed tangled_0 ''99'')"
    using process_hole_dangling [of "hole_to 0 99 1 0" 99 0 "Own base_definition" tangled_0
            "bricksById tangled" "''1''" "base_plate_of tangled_base"]
    by (simp add: hole_to_def bricks_tangled)
  have h1: "process_hole (bricksById tangled) ''1'' (base_plate_of tangled_base) (Own base_definition)
              (mark_processed tangled_0 ''99'') (hole_to 1 2 1 0) = Inr tangled_1"
    unfolding tangled_1_def tangled_child_2_def
    using process_hole_add [of 2 base_definition 1 "mark_processed tangled_0 ''99''"
            "bricksById tangled" tangled_2 definition_1x1 _ 1 _ "''1''" "base_plate_of tangled_base" 0]
    by (simp add: bricks_tangled base_offset_1 offset_1x1_1)
  show ?thesis
    using h0 h1 by (simp add: process_brick_def bricks_tangled tangled_0_def [symmetric])
qed

lemma tangled_brick_2:
  "process_brick (bricksById tangled) ''2'' (tangled_1\<lparr>queue := []\<rparr>) = Inr tangled_2_state"
proof -
  have h0: "process_hole (bricksById tangled) ''2'' (child_mesh tangled_child_2) (Own definition_1x1)
              (tangled_1\<lparr>queue := []\<rparr>) (hole_to 0 3 1 0) = Inr tangled_2_state"
    unfolding tangled_2_state_def tangled_child_3_def
    using process_hole_add [of 3 definition_1x1 0 "tangled_1\<lparr>queue := []\<rparr>"
            "bricksById tangled" tangled_3 definition_1x1 _ 1 _ "''2''" "child_mesh tangled_child_2" 0]
    by (simp add: bricks_tangled offset_1x1_0 offset_1x1_1 top_1x1_0)
  show ?thesis
    using h0 by (simp add: process_brick_def bricks_tangled process_bottom_hole not_top_1x1_1)
qed

lemma tangled_brick_3:
  "process_brick (bricksById tangled) ''3'' (tangled_2_state\<lparr>queue := []\<rparr>) = Inr tangled_final"
proof -
  have h0: "process_hole (bricksById tangled) ''3'' (child_mesh tangled_child_3) (Own definition_1x1)
              (tangled_2_state\<lparr>queue := []\<rparr>) (hole_to 0 2 1 0) = Inr (tangled_2_state\<lparr>queue := []\<rparr>)"
    by (rule process_hole_processed [of _ 2]) (simp_all add: hole_to_def)
  show ?thesis
    using h0
    by (simp add: process_brick_def bricks_tangled process_bottom_hole not_top_1x1_1 tangled_final_def)
qed

lemma tangled_run: "buildStructure tangled = Inr tangled_final"
proof -
  have "buildStructure tangled = bfs_loop tangled (start tangled_base)"
    by (simp add: buildStructure_eq bricks_tangled)
  also have "\<dots> = bfs_loop tangled tangled_1"
    by (rule bfs_loop_Cons [OF _ tangled_brick_1]) simp
  also have "\<dots> = bfs_loop tangled tangled_2_state"
    by (rule bfs_loop_Cons [OF _ tangled_brick_2]) simp
  also have "\<dots> = bfs_loop tangled tangled_final"
    by (rule bfs_loop_Cons [OF _ tangled_brick_3]) simp
  also have "\<dots> = Inr tangled_final"
    by (rule bfs_loop_Nil) (simp add: tangled_final_def)
  finally show ?thesis .
qed

lemma tangled_final_simps [simp]:
  "structureGroup tangled_final = [tangled_child_2, tangled_child_3]"
  "basePlateMesh tangled_final = Some (base_plate_of tangled_base)"
  "queue tangled_final = []"
  "processedBrickIds tangled_final = {''3'', ''2'', ''99'', ''1''}"
  by (simp_all add: tangled_final_def tangled_2_state_def tangled_1_def tangled_0_def)

lemma tangled_positions:
  "position (child_mesh tangled_child_2) = Vector3 (- 1) (12 / 5) (- 3) \<and>
   position (child_mesh tangled_child_3) = Vector3 (- 1) (24 / 5) (- 3)"
  by (simp add: tangled_child_3_def tangled_child_2_def newMesh_def newBrickPosition_def
        worldRotation_identity_0 base_plate_of_def localToWorld_def applyQuaternion_def add_def
        sub_def identity_quaternion_def)

subsection \<open>A turned brick\<close>

text \<open>
  The base holds a 2x1 brick on hole 0, by the brick's bottom hole 2, turned by 90 degrees.
\<close>

definition turned_base :: BrickData where
  "turned_base = \<lparr> brick_id = Some 1, brick_type = ''base'', colour = Some ''white'',
      holes = Some [hole_to 0 2 2 90] \<rparr>"

definition turned_2 :: BrickData where
  "turned_2 = \<lparr> brick_id = Some 2, brick_type = ''2x1'', colour = Some ''green'',
      holes = Some [empty_hole 0, empty_hole 1, hole_to 2 1 0 90, empty_hole 3] \<rparr>"


lemma quarter_turn:
  "setFromAxisAngle (Vector3 0 1 0) (- degToRad 90) = Quaternion 0 (- (sqrt 2 / 2)) 0 (sqrt 2 / 2)"
proof -
  have h: "- degToRad 90 / 2 = - (pi / 4)" by (simp add: degToRad_def)
  show ?thesis unfolding setFromAxisAngle_def Let_def h by (simp add: sin_45 cos_45)
qed


definition turned_mesh :: Mesh where
  "turned_mesh = \<lparr> geometry = Vector3 4 (12 / 5) 2, material = Hex 0x00ff00,
                    position = Vector3 (- 3) (12 / 5) (- 2),
                    quaternion = Quaternion 0 (- (sqrt 2 / 2)) 0 (sqrt 2 / 2) \<rparr>"

lemma worldRotation_identity:
  "quaternion m = identity_quaternion \<Longrightarrow>
   worldRotation m d = setFromAxisAngle (Vector3 0 1 0) (- degToRad d)"
  by (simp add: worldRotation_def getWorldQuaternion_def multiply_def identity_quaternion_def
        setFromAxisAngle_def Let_def)

lemma green: "getBrickColorHex (Some ''green'') = Hex 0x00ff00"
  by (simp add: getBrickColorHex_def js_get_def COLOR_MAP_def toLowerCase_def toLowerCase_char_def)

lemma base_plate_of_simps [simp]:
  "position (base_plate_of b) = Vector3 0 0 0" "quaternion (base_plate_of b) = identity_quaternion"
  by (simp_all add: base_plate_of_def)

lemma turned_newMesh:
  "child_mesh (newMesh ''1'' (base_plate_of turned_base) base_definition 0 ''2'' turned_2 definition_2x1 2 90
     (Vector3 (- 3) (6 / 5) (- 3)) (Vector3 (- 1) (- (6 / 5)) 0)) = turned_mesh"
proof -
  have q: "worldRotation (base_plate_of turned_base) 90 = Quaternion 0 (- (sqrt 2 / 2)) 0 (sqrt 2 / 2)"
    by (simp add: worldRotation_identity quarter_turn)
  have p: "newBrickPosition (base_plate_of turned_base) (Vector3 (- 3) (6 / 5) (- 3))
             (Vector3 (- 1) (- (6 / 5)) 0) 90 = Vector3 (- 3) (12 / 5) (- 2)"
    by (simp add: newBrickPosition_def q localToWorld_def applyQuaternion_def
          add_def sub_def identity_quaternion_def)
  show ?thesis
    by (simp add: newMesh_def q p turned_mesh_def definition_2x1_def turned_2_def green
          STUD_SIZE_def PLATE_HEIGHT_def)
qed



lemma newMesh_via_simps [simp]:
  "from_def (via (newMesh cid cmesh cdef hid k data tdef toHole d bo to)) = cdef"
  "from_hole (via (newMesh cid cmesh cdef hid k data tdef toHole d bo to)) = hid"
  "to_def (via (newMesh cid cmesh cdef hid k data tdef toHole d bo to)) = tdef"
  "to_hole (via (newMesh cid cmesh cdef hid k data tdef toHole d bo to)) = toHole"
  "degrees (via (newMesh cid cmesh cdef hid k data tdef toHole d bo to)) = d"
  by (simp_all add: newMesh_def)

lemma getBrickDefinition_2x1 [simp]: "getBrickDefinition ''2x1'' = Own definition_2x1"
  by (simp add: getBrickDefinition_def js_get_def BRICK_DEFINITIONS_def)


lemma turned_simps [simp]:
  "brick_type turned_base = ''base''" "holes turned_base = Some [hole_to 0 2 2 90]"
  "brick_type turned_2 = ''2x1''"
  "holes turned_2 = Some [empty_hole 0, empty_hole 1, hole_to 2 1 0 90, empty_hole 3]"
  by (simp_all add: turned_base_def turned_2_def)


definition turned_child :: Child where
  "turned_child = newMesh ''1'' (base_plate_of turned_base) base_definition 0 ''2'' turned_2
                    definition_2x1 2 90 (Vector3 (- 3) (6 / 5) (- 3)) (Vector3 (- 1) (- (6 / 5)) 0)"

definition turned_1 :: build_state where
  "turned_1 = add_child ((start turned_base)\<lparr>queue := []\<rparr>) turned_child"

lemma turned_child_simps [simp]:
  "child_key turned_child = ''2''" "child_mesh turned_child = turned_mesh"
  "from_key (via turned_child) = ''1''" "from_mesh (via turned_child) = base_plate_of turned_base"
  "from_def (via turned_child) = base_definition" "from_hole (via turned_child) = 0"
  "to_def (via turned_child) = definition_2x1" "to_hole (via turned_child) = 2"
  "degrees (via turned_child) = 90"
  by (simp_all add: turned_child_def turned_newMesh)


lemma turned_1_simps [simp]:
  "queue turned_1 = [''2'']" "threeMeshes turned_1 ''2'' = Some turned_mesh"
  "threeMeshes turned_1 ''1'' = Some (base_plate_of turned_base)"
  "structureGroup turned_1 = [turned_child]"
  by (simp_all add: turned_1_def)




lemma tangled_child_3_in_tangled:
  "tangled_child_3 \<in> set (structureGroup (scene (buildStructure tangled)))"
  by (simp add: tangled_run)

section \<open>The claims\<close>



text \<open>
  C2. When the build completes, the base brick (the record under the key \<^verbatim>\<open>"1"\<close>, of
  type \<^verbatim>\<open>base\<close>) has a mesh, stored under \<^verbatim>\<open>"1"\<close>, at position \<open>(0, 0, 0)\<close> with the
  identity rotation.
\<close>

theorem base_at_origin:
  assumes "buildStructure structureData = Inr st"
  shows "\<exists>basePlate baseData.
           bricksById structureData ''1'' = Some baseData \<and> brick_type baseData = ''base'' \<and>
           basePlateMesh st = Some basePlate \<and> threeMeshes st ''1'' = Some basePlate \<and>
           position basePlate = Vector3 0 0 0 \<and>
           quaternion basePlate = identity_quaternion"
proof (cases structureData rule: buildStructure_cases)
  case missing
  with assms show ?thesis by simp
next
  case (completed st' baseData)
  with assms have "st' = st" by simp
  with completed show ?thesis by (auto simp: loop_inv_def base_placed_def)
next
  case (thrown st' baseData)
  with assms show ?thesis by simp
qed

theorem base_at_origin_witness:
  "buildStructure (scenario None None) = Inr ((scenario_1 None None)\<lparr>queue := []\<rparr>) \<and>
   (\<exists>basePlate baseData.
           bricksById (scenario None None) ''1'' = Some baseData \<and> brick_type baseData = ''base'' \<and>
           basePlateMesh ((scenario_1 None None)\<lparr>queue := []\<rparr>) = Some basePlate \<and>
           threeMeshes ((scenario_1 None None)\<lparr>queue := []\<rparr>) ''1'' = Some basePlate \<and>
           position basePlate = Vector3 0 0 0 \<and>
           quaternion basePlate = identity_quaternion)"
  using base_at_origin [OF scenario_run [of None None]] scenario_run [of None None]
  by simp



text \<open>
  C4. For the input made of the base brick (id 1), whose hole 0 holds brick 56 by hole 1
  of that brick with orientation 0, and of brick 56 of type 1x1, the build completes,
  brick 56 is the one mesh of the structure group, and it stands at \<open>(-3, 2.4, -3)\<close>
  with the identity rotation (stud size 2, plate height 2.4), whatever the two colours.
\<close>

theorem single_child_position:
  "\<exists>st m. buildStructure (scenario c1 c2) = Inr st \<and>
          map child_key (structureGroup st) = [''56''] \<and>
          threeMeshes st ''56'' = Some m \<and>
          position m = Vector3 (- 3) (24 / 10) (- 3) \<and>
          quaternion m = identity_quaternion"
  by (simp add: scenario_run child_56_def mesh_56_def)

text \<open>
  C5. For every child \<open>c\<close> of the structure group, placed from hole \<open>s\<close> of the stored
  mesh \<open>A\<close> by its own hole \<open>t\<close>, the world position of \<open>t\<close> under the child's mesh is
  the world position of \<open>s\<close> under \<open>A\<close>. Over the reals the two points are equal, for
  every orientation and so for orientation 0.
\<close>

theorem sockets_coincide:
  assumes "c \<in> set (structureGroup (scene (buildStructure structureData)))"
  shows "\<exists>A s t.
           threeMeshes (scene (buildStructure structureData)) (from_key (via c)) = Some A \<and>
           A = from_mesh (via c) \<and>
           threeMeshes (scene (buildStructure structureData)) (child_key c) = Some (child_mesh c) \<and>
           HoleOffsets (from_def (via c)) (from_hole (via c)) = Some s \<and>
           HoleOffsets (to_def (via c)) (to_hole (via c)) = Some t \<and>
           localToWorld (child_mesh c) t = localToWorld A s"
proof -
  from child_facts(3) [OF assms] obtain s t where
    s: "HoleOffsets (from_def (via c)) (from_hole (via c)) = Some s" and
    t: "HoleOffsets (to_def (via c)) (to_hole (via c)) = Some t" and
    q: "quaternion (child_mesh c) = worldRotation (from_mesh (via c)) (degrees (via c))" and
    p: "position (child_mesh c) = newBrickPosition (from_mesh (via c)) s t (degrees (via c))"
    unfolding placed_by_def by blast
  have "localToWorld (child_mesh c) t = localToWorld (from_mesh (via c)) s"
    using p q by (simp add: localToWorld_def [of "child_mesh c"] newBrickPosition_def add_sub_cancel)
  with child_facts(1,2) [OF assms] s t show ?thesis by blast
qed

theorem sockets_coincide_witness:
  "child_56 None None \<in> set (structureGroup (scene (buildStructure (scenario None None)))) \<and>
   (\<exists>A s t.
           threeMeshes (scene (buildStructure (scenario None None))) ''1'' = Some A \<and>
           threeMeshes (scene (buildStructure (scenario None None))) ''56'' = Some (mesh_56 None) \<and>
           HoleOffsets base_definition 0 = Some s \<and>
           HoleOffsets definition_1x1 1 = Some t \<and>
           localToWorld (mesh_56 None) t = localToWorld A s)"
  using sockets_coincide [OF child_56_in_scenario [of None None]]
        child_56_in_scenario [of None None]
  by (simp add: child_56_def)

text \<open>
  C6. Every child of the structure group hangs on a hole record of the brick below
  whose id passes \<open>isTopHole\<close> for the definition of that brick's type: the brick below
  is the base, or the hole id is in the \<^verbatim>\<open>TopHoleIds\<close> of its definition; the hole id is
  never in the \<^verbatim>\<open>BottomHoleIds\<close> of the definition; and for the base definition every
  hole id counts as a top hole.
\<close>

theorem only_top_holes_followed:
  assumes "c \<in> set (structureGroup (scene (buildStructure structureData)))"
  shows "\<exists>currentBrickData hs holeData.
           bricksById structureData (from_key (via c)) = Some currentBrickData \<and>
           holes currentBrickData = Some hs \<and> holeData \<in> set hs \<and>
           hole_id holeData = Some (from_hole (via c)) \<and>
           (\<exists>b. brick holeData = Some b \<and> String_js b = child_key c) \<and>
           getBrickDefinition (brick_type currentBrickData) = Own (from_def (via c)) \<and>
           isTopHole (getBrickDefinition (brick_type currentBrickData)) (from_hole (via c)) \<and>
           (brick_type currentBrickData = ''base'' \<or>
            (\<exists>ids. TopHoleIds (from_def (via c)) = Some ids \<and> from_hole (via c) \<in> set ids)) \<and>
           (\<forall>ids. BottomHoleIds (from_def (via c)) = Some ids \<longrightarrow> from_hole (via c) \<notin> set ids) \<and>
           (\<forall>k. isTopHole (getBrickDefinition ''base'') k)"
proof -
  from child_facts(4) [OF assms] obtain currentBrickData hs holeData where
    rec: "bricksById structureData (from_key (via c)) = Some currentBrickData"
         "holes currentBrickData = Some hs" "holeData \<in> set hs" and
    con: "connects (bricksById structureData) (getBrickDefinition (brick_type currentBrickData)) holeData c"
    unfolding wired_def by blast
  from con have d: "getBrickDefinition (brick_type currentBrickData) = Own (from_def (via c))"
    and h: "hole_id holeData = Some (from_hole (via c))"
           "\<exists>b. brick holeData = Some b \<and> String_js b = child_key c"
    unfolding connects_def by auto
  from child_facts(3) [OF assms] have top: "isTopHole (Own (from_def (via c))) (from_hole (via c))"
    unfolding placed_by_def by blast
  from d have kinds: "(brick_type currentBrickData = ''base'' \<or>
            (\<exists>ids. TopHoleIds (from_def (via c)) = Some ids \<and> from_hole (via c) \<in> set ids)) \<and>
           (\<forall>ids. BottomHoleIds (from_def (via c)) = Some ids \<longrightarrow> from_hole (via c) \<notin> set ids)"
  proof (cases rule: catalog_cases)
    case 1
    then show ?thesis by (simp add: base_definition_def)
  next
    case 2
    with top show ?thesis by (auto simp: isTopHole_def definition_3x1_def)
  next
    case 3
    with top show ?thesis by (auto simp: isTopHole_def definition_2x1_def)
  next
    case 4
    with top show ?thesis by (auto simp: isTopHole_def definition_1x1_def)
  qed
  have "\<forall>k. isTopHole (getBrickDefinition ''base'') k" by simp
  with rec d h top kinds show ?thesis
    by (intro exI [of _ currentBrickData] exI [of _ hs] exI [of _ holeData]) simp
qed

theorem only_top_holes_followed_witness:
  "tangled_child_3 \<in> set (structureGroup (scene (buildStructure tangled))) \<and>
   (\<exists>currentBrickData hs holeData.
           bricksById tangled ''2'' = Some currentBrickData \<and>
           holes currentBrickData = Some hs \<and> holeData \<in> set hs \<and>
           hole_id holeData = Some 0 \<and>
           (\<exists>b. brick holeData = Some b \<and> String_js b = ''3'') \<and>
           getBrickDefinition (brick_type currentBrickData) = Own definition_1x1 \<and>
           isTopHole (getBrickDefinition (brick_type currentBrickData)) 0 \<and>
           brick_type currentBrickData = ''1x1'' \<and>
           (\<exists>ids. TopHoleIds definition_1x1 = Some ids \<and> 0 \<in> set ids))"
proof -
  from only_top_holes_followed [OF tangled_child_3_in_tangled]
  obtain currentBrickData hs holeData where
    f: "bricksById tangled (from_key (via tangled_child_3)) = Some currentBrickData"
       "holes currentBrickData = Some hs" "holeData \<in> set hs"
       "hole_id holeData = Some (from_hole (via tangled_child_3))"
       "\<exists>b. brick holeData = Some b \<and> String_js b = child_key tangled_child_3"
       "getBrickDefinition (brick_type currentBrickData) = Own (from_def (via tangled_child_3))"
       "isTopHole (getBrickDefinition (brick_type currentBrickData)) (from_hole (via tangled_child_3))"
       "brick_type currentBrickData = ''base'' \<or>
            (\<exists>ids. TopHoleIds (from_def (via tangled_child_3)) = Some ids \<and>
                   from_hole (via tangled_child_3) \<in> set ids)"
    by blast
  have v: "from_key (via tangled_child_3) = ''2''" "from_hole (via tangled_child_3) = 0"
    "from_def (via tangled_child_3) = definition_1x1"
    by (simp_all add: tangled_child_3_def)
  from f(1) have c: "currentBrickData = tangled_2" by (simp add: v bricks_tangled)
  from f(8) c have "\<exists>ids. TopHoleIds definition_1x1 = Some ids \<and> 0 \<in> set ids"
    by (simp add: v)
  with f c v tangled_child_3_in_tangled show ?thesis
    by (intro conjI exI [of _ tangled_2] exI [of _ hs] exI [of _ holeData]) simp_all
qed

text \<open>
  C7. For every input the loop terminates: its recursion is well-founded from every
  state (\<open>bfs_loop_dom\<close>), whatever cycles or repeated references the records hold,
  and a completed build ends with an empty queue. No id has two meshes in the scene,
  and the mesh stored under an id is the mesh of its one placement. A connection to
  an id that is already processed changes nothing, and a mesh once stored under an id
  is still the one stored under it when the loop ends: the first placement stays.
\<close>

theorem each_brick_placed_once:
  "bfs_loop_dom (structureData, st) \<and>
   distinct (placed_keys (scene (buildStructure structureData))) \<and>
   (\<forall>c \<in> set (structureGroup (scene (buildStructure structureData))).
      threeMeshes (scene (buildStructure structureData)) (child_key c) = Some (child_mesh c)) \<and>
   (\<forall>final. buildStructure structureData = Inr final \<longrightarrow> queue final = []) \<and>
   (brick holeData = Some b \<and> String_js b \<in> processedBrickIds st \<longrightarrow>
      process_hole bricks currentBrickId currentMesh currentBrickDef st holeData = Inr st) \<and>
   (loop_inv (bricksById structureData) st \<and> threeMeshes st key = Some mesh \<longrightarrow>
      threeMeshes (scene (bfs_loop structureData st)) key = Some mesh)"
proof (intro conjI)
  show "bfs_loop_dom (structureData, st)" using bfs_loop_terminates by blast
  show "distinct (placed_keys (scene (buildStructure structureData)))"
    by (cases structureData rule: buildStructure_cases)
       (simp_all add: placed_keys_distinct, simp add: placed_keys_def)
  show "\<forall>c \<in> set (structureGroup (scene (buildStructure structureData))).
      threeMeshes (scene (buildStructure structureData)) (child_key c) = Some (child_mesh c)"
    using child_facts(1) by blast
  show "\<forall>final. buildStructure structureData = Inr final \<longrightarrow> queue final = []"
    by (cases structureData rule: buildStructure_cases) auto
  show "brick holeData = Some b \<and> String_js b \<in> processedBrickIds st \<longrightarrow>
      process_hole bricks currentBrickId currentMesh currentBrickDef st holeData = Inr st"
    using process_hole_processed by blast
  show "loop_inv (bricksById structureData) st \<and> threeMeshes st key = Some mesh \<longrightarrow>
      threeMeshes (scene (bfs_loop structureData st)) key = Some mesh"
    using bfs_loop_keeps [of structureData st] by (auto simp: map_le_def dom_def)
qed

theorem each_brick_placed_once_witness:
  "buildStructure tangled = Inr tangled_final \<and>
   bfs_loop_dom (tangled, tangled_final) \<and>
   placed_keys tangled_final = [''1'', ''2'', ''3''] \<and>
   distinct (placed_keys (scene (buildStructure tangled))) \<and>
   tangled_child_2 \<in> set (structureGroup (scene (buildStructure tangled))) \<and>
   threeMeshes (scene (buildStructure tangled)) ''2'' = Some (child_mesh tangled_child_2) \<and>
   queue tangled_final = [] \<and>
   brick (hole_to 0 2 1 0) = Some 2 \<and> String_js 2 \<in> processedBrickIds tangled_final \<and>
   process_hole (bricksById tangled) ''3'' (child_mesh tangled_child_3) (Own definition_1x1)
     tangled_final (hole_to 0 2 1 0) = Inr tangled_final"
proof -
  note t = each_brick_placed_once [of tangled tangled_final "hole_to 0 2 1 0" 2
             "bricksById tangled" "''3''" "child_mesh tangled_child_3" "Own definition_1x1"]
  have run: "buildStructure tangled = Inr tangled_final" by (rule tangled_run)
  have h: "brick (hole_to 0 2 1 0) = Some 2 \<and> String_js 2 \<in> processedBrickIds tangled_final"
    by (simp add: hole_to_def)
  have c: "tangled_child_2 \<in> set (structureGroup (scene (buildStructure tangled)))"
    by (simp add: run)
  from t have "bfs_loop_dom (tangled, tangled_final)" by blast
  moreover from t have "distinct (placed_keys (scene (buildStructure tangled)))" by blast
  moreover from t c have "threeMeshes (scene (buildStructure tangled)) (child_key tangled_child_2)
                            = Some (child_mesh tangled_child_2)" by blast
  moreover from t run have "queue tangled_final = []" by blast
  moreover from t h have "process_hole (bricksById tangled) ''3'' (child_mesh tangled_child_3)
     (Own definition_1x1) tangled_final (hole_to 0 2 1 0) = Inr tangled_final" by blast
  moreover have "placed_keys tangled_final = [''1'', ''2'', ''3'']"
    by (simp add: placed_keys_def)
  ultimately show ?thesis using run h c by simp
qed



text \<open>
  C9. The claim: applied to a hole id that is not one of the type's hole ids,
  \<^verbatim>\<open>HoleOffsets\<close> fails or returns a sentinel. The code computes an offset for every
  integer: id 17 on the base gives \<open>(-1, 1.2, 5)\<close>, a point beyond the edge of the plate
  (half of its depth is 4), and id 7 on the 3x1, which is in neither of its hole id
  lists, gives \<open>(0, -1.2, 0)\<close>.
\<close>

theorem undefined_hole_offset_counterexample:
  "getBrickDefinition ''base'' = Own base_definition \<and>
   HoleOffsets base_definition 17 = Some (Vector3 (- 1) (12 / 10) 5) \<and>
   vz (Size base_definition) / 2 = 4 \<and>
   getBrickDefinition ''3x1'' = Own definition_3x1 \<and>
   TopHoleIds definition_3x1 = Some [0, 1, 2] \<and> BottomHoleIds definition_3x1 = Some [3, 4, 5] \<and>
   HoleOffsets definition_3x1 7 = Some (Vector3 0 (- (12 / 10)) 0)"
  by (simp add: getBrickDefinition_def js_get_def BRICK_DEFINITIONS_def base_definition_def
        definition_3x1_def base_HoleOffsets_def HoleOffsets_3x1_def js_rem_def
        STUD_SIZE_def PLATE_HEIGHT_def)

text \<open>
  C9, as the code has it. For every type of the catalog and every integer hole id,
  \<^verbatim>\<open>HoleOffsets\<close> returns a vector, on the top face or on the bottom face of the brick.
\<close>

theorem hole_offsets_total:
  assumes "getBrickDefinition brickType = Own d"
  shows "\<exists>v. HoleOffsets d holeId = Some v \<and>
             (vy v = PLATE_HEIGHT / 2 \<or> vy v = - PLATE_HEIGHT / 2)"
  using assms
proof (cases rule: catalog_cases)
  case 1
  then show ?thesis by (simp add: base_definition_def base_HoleOffsets_def Let_def)
next
  case 2
  then show ?thesis by (simp add: definition_3x1_def HoleOffsets_3x1_def Let_def)
next
  case 3
  then show ?thesis by (simp add: definition_2x1_def HoleOffsets_2x1_def Let_def)
next
  case 4
  then show ?thesis by (simp add: definition_1x1_def HoleOffsets_1x1_def Let_def)
qed

theorem hole_offsets_total_witness:
  "getBrickDefinition ''base'' = Own base_definition \<and>
   (\<exists>v. HoleOffsets base_definition 17 = Some v \<and>
             (vy v = PLATE_HEIGHT / 2 \<or> vy v = - PLATE_HEIGHT / 2))"
  using hole_offsets_total [of "''base''" base_definition 17] by simp

text \<open>
  C10. The claim: the colour lookup returns a hex value for every input, the default
  grey for every unknown name. The lookup is case-insensitive, and an absent name or
  a name such as \<^verbatim>\<open>teal\<close> gives the default grey; but a name that lower-cases to a
  property every object inherits, such as \<^verbatim>\<open>constructor\<close>, gives the inherited value,
  which is truthy and is returned in place of a number.
\<close>

theorem inherited_colour_name:
  "getBrickColorHex (Some ''constructor'') = NotANumber \<and>
   getBrickColorHex (Some ''Constructor'') = NotANumber \<and>
   getBrickColorHex (Some ''__proto__'') = NotANumber \<and>
   getBrickColorHex (Some ''Blue'') = Hex 0x0000ff \<and>
   getBrickColorHex (Some ''teal'') = Hex 0x888888 \<and>
   getBrickColorHex None = Hex 0x888888"
  by (simp add: getBrickColorHex_def js_get_def COLOR_MAP_def Object_prototype_keys_def
        toLowerCase_def toLowerCase_char_def)

text \<open>For every other name the lookup is the table's entry or the default grey.\<close>

lemma colour_of_own_name:
  "toLowerCase n \<notin> set Object_prototype_keys \<Longrightarrow>
   getBrickColorHex (Some n) =
     Hex (case COLOR_MAP (toLowerCase n) of Some c \<Rightarrow> c | None \<Rightarrow> 0x888888)"
  by (auto simp: getBrickColorHex_def js_get_def COLOR_MAP_def split: option.splits)

end
